theory Spec2Isabelle
  imports Complex_Main
begin

section \<open>Python values\<close>

text \<open>
  The service passes dictionaries around (\<open>Dict[str, Any]\<close>). A key of a dictionary is
  in one of three states: the key is absent, the key is present and holds \<open>None\<close>, or the
  key is present and holds a value. \<open>d.get(k, default)\<close> returns the default only in the
  first state; a key that holds \<open>None\<close> yields \<open>None\<close>.
\<close>

datatype 'a field = Absent | PyNone | Held 'a

text \<open>\<open>d.get(k, default)\<close>; the result is a Python value, \<open>None\<close> included.\<close>

fun dict_get :: "'a field \<Rightarrow> 'a option \<Rightarrow> 'a option" where
  "dict_get Absent d = d"
| "dict_get PyNone d = None"
| "dict_get (Held v) d = Some v"

text \<open>\<open>k in d\<close>.\<close>

fun dict_has :: "'a field \<Rightarrow> bool" where
  "dict_has Absent = False"
| "dict_has PyNone = True"
| "dict_has (Held v) = True"

text \<open>A dictionary display \<open>{k: v}\<close>: the key is present, whatever \<open>v\<close> is.\<close>

fun dict_item :: "'a option \<Rightarrow> 'a field" where
  "dict_item None = PyNone"
| "dict_item (Some v) = Held v"

text \<open>Truth value of an optional string: \<open>None\<close> and \<open>""\<close> are false.\<close>

fun truthy :: "string option \<Rightarrow> bool" where
  "truthy None = False"
| "truthy (Some s) = (s \<noteq> [])"

text \<open>\<open>x or default\<close> on an optional string.\<close>

definition py_or :: "string option \<Rightarrow> string \<Rightarrow> string" where
  "py_or x d = (if truthy x then the x else d)"

text \<open>
  An exception, as far as the service looks at it: only \<open>str(e)\<close> is ever read. The text
  of the exceptions that the interpreter or SQLite raise (a \<open>TypeError\<close>, an
  \<open>IntegrityError\<close>) is written here by a fixed non-empty text for each raise site.
\<close>

datatype exn = Exception string

fun str :: "exn \<Rightarrow> string" where
  "str (Exception m) = m"

text \<open>A \<open>for\<close> loop whose body may raise: the first exception ends the loop.\<close>

fun for_each :: "('s \<Rightarrow> 'a \<Rightarrow> exn + 's) \<Rightarrow> 'a list \<Rightarrow> 's \<Rightarrow> exn + 's" where
  "for_each body [] s = Inr s"
| "for_each body (x # xs) s =
     (case body s x of Inl e \<Rightarrow> Inl e | Inr s' \<Rightarrow> for_each body xs s')"

text \<open>
  Iterating a Python value that should be a list: \<open>for x in None\<close> raises a
  \<open>TypeError\<close>.
\<close>

definition not_iterable :: exn where
  "not_iterable = Exception ''NoneType object is not iterable''"

fun iterate :: "'a list option \<Rightarrow> exn + 'a list" where
  "iterate None = Inl not_iterable"
| "iterate (Some xs) = Inr xs"


section \<open>Schemas (app/models/schemas.py)\<close>

datatype JobStatus = PENDING | PROCESSING | COMPLETED | FAILED | CANCELLED

datatype ProcessingStage =
  UPLOAD | TRANSCRIPTION | DIARIZATION | ALIGNMENT | STAGE_COMPLETED

text \<open>The values of the \<open>ModelSize\<close> enumeration.\<close>

definition ModelSize :: "string list" where
  "ModelSize = [''tiny'', ''base'', ''small'', ''medium'', ''large'', ''large-v2'']"

text \<open>
  Times and scores are Python floats; they are only copied and compared here, and are
  modelled by rationals. Timestamps are points of a discrete clock.
\<close>

type_synonym num = rat
type_synonym timestamp = nat

text \<open>The dictionaries of a result: a word, a speaker segment, the result itself.\<close>

record word_dict =
  wd_start :: "num field"
  wd_end :: "num field"
  wd_word :: "string field"
  wd_speaker :: "string field"
  wd_confidence :: "num field"

record segment_dict =
  sd_start :: "num field"
  sd_end :: "num field"
  sd_text :: "string field"
  sd_speaker :: "string field"

record result_dict =
  rd_text :: "string field"
  rd_language :: "string field"
  rd_duration :: "num field"
  rd_word_segments :: "word_dict list field"
  rd_speaker_segments :: "segment_dict list field"
  rd_confidence :: "num field"
  rd_processing_time :: "num field"
  rd_error :: "string field"


section \<open>The database (app/models/database.py)\<close>

text \<open>
  A row of table \<open>jobs\<close>. Column \<open>status\<close> is text; the service only ever writes the five
  values of \<open>JobStatus\<close> into it. A nullable column is an option. \<open>result_data\<close> holds
  \<open>json.dumps(result)\<close>; the model stores the dictionary that the text serialises, which
  \<open>json.loads\<close> gives back.
\<close>

record job =
  job_id :: string
  status :: JobStatus
  created_at :: timestamp
  updated_at :: timestamp
  filename :: "string option"
  model_size :: "string option"
  enable_diarization :: "bool option"
  enable_alignment :: "bool option"
  language :: "string option"
  processing_time :: "num option"
  audio_duration :: "num option"
  confidence :: "num option"
  error_message :: "string option"
  result_data :: "result_dict option"

text \<open>
  Rows of \<open>speaker_segments\<close> and \<open>word_segments\<close>. A column declared \<open>NOT NULL\<close> has
  no option type; the autoincremented \<open>id\<close> is the position in the table.
\<close>

record speaker_segment_row =
  ss_job_id :: string
  ss_speaker :: string
  ss_start_time :: num
  ss_end_time :: num
  ss_text :: string

record word_segment_row =
  ws_job_id :: string
  ws_word :: string
  ws_start_time :: num
  ws_end_time :: num
  ws_speaker :: "string option"
  ws_confidence :: "num option"

record database =
  jobs :: "job list"
  speaker_segments :: "speaker_segment_row list"
  word_segments :: "word_segment_row list"

definition empty_database :: database where
  "empty_database = \<lparr>jobs = [], speaker_segments = [], word_segments = []\<rparr>"

text \<open>The dictionary \<open>job_data\<close> given to \<open>create_job\<close>.\<close>

record job_data =
  jd_job_id :: string
  jd_filename :: string
  jd_model_size :: "string field"
  jd_enable_diarization :: "bool field"
  jd_enable_alignment :: "bool field"
  jd_language :: "string field"

text \<open>
  Every method of \<open>DatabaseManager\<close> runs one transaction (\<open>with sqlite3.connect(...)\<close>:
  commit at the end, rollback when the body raises) and turns an exception into its
  failure value. Faults of the storage engine itself (I/O, locking) are outside the
  model: the \<open>except\<close> branches are reached through constraint violations and type
  errors only.

  \<open>create_job\<close>: the insert violates the primary key when the id is taken.
\<close>

definition create_job :: "database \<Rightarrow> job_data \<Rightarrow> timestamp \<Rightarrow> bool \<times> database" where
  "create_job db jd now =
     (if \<exists>j \<in> set (jobs db). job_id j = jd_job_id jd then (False, db)
      else (True, db\<lparr>jobs := jobs db @
        [\<lparr>job_id = jd_job_id jd, status = PENDING, created_at = now, updated_at = now,
          filename = Some (jd_filename jd),
          model_size = dict_get (jd_model_size jd) (Some ''large-v2''),
          enable_diarization = dict_get (jd_enable_diarization jd) (Some True),
          enable_alignment = dict_get (jd_enable_alignment jd) (Some True),
          language = dict_get (jd_language jd) None,
          processing_time = None, audio_duration = None, confidence = None,
          error_message = None, result_data = None\<rparr>]\<rparr>))"

definition get_job :: "database \<Rightarrow> string \<Rightarrow> job option" where
  "get_job db jid = find (\<lambda>j. job_id j = jid) (jobs db)"

text \<open>
  \<open>get_jobs\<close>: \<open>WHERE status = ?\<close> when a status is given, \<open>ORDER BY created_at DESC\<close>,
  \<open>LIMIT ? OFFSET ?\<close>. In SQLite a negative limit is no limit and a negative offset is
  zero. Rows of equal \<open>created_at\<close> keep their table order.
\<close>

definition get_jobs :: "database \<Rightarrow> int \<Rightarrow> int \<Rightarrow> JobStatus option \<Rightarrow> job list" where
  "get_jobs db limit offset st =
     (let rows = (case st of None \<Rightarrow> jobs db
                  | Some v \<Rightarrow> filter (\<lambda>j. status j = v) (jobs db));
          ordered = sort_key (\<lambda>j. - int (created_at j)) rows;
          skipped = drop (nat offset) ordered
      in if limit < 0 then skipped else take (nat limit) skipped)"

text \<open>
  \<open>update_job_status\<close>: one of two \<open>UPDATE ... WHERE job_id = ?\<close> statements, chosen by
  the truth value of \<open>error_message\<close>; then \<open>return True\<close>.
\<close>

definition update_job_status ::
  "database \<Rightarrow> string \<Rightarrow> JobStatus \<Rightarrow> string option \<Rightarrow> timestamp \<Rightarrow> bool \<times> database" where
  "update_job_status db jid st err now =
     (True, db\<lparr>jobs := map (\<lambda>j.
        if job_id j = jid then
          (if truthy err
           then j\<lparr>status := st, error_message := err, updated_at := now\<rparr>
           else j\<lparr>status := st, updated_at := now\<rparr>)
        else j) (jobs db)\<rparr>)"

text \<open>The statements of \<open>save_job_result\<close>, in order, inside its transaction.\<close>

definition update_main_job_record ::
  "string \<Rightarrow> result_dict \<Rightarrow> timestamp \<Rightarrow> database \<Rightarrow> database" where
  "update_main_job_record jid r now db =
     db\<lparr>jobs := map (\<lambda>j.
        if job_id j = jid then
          j\<lparr>status := COMPLETED,
            processing_time := dict_get (rd_processing_time r) None,
            audio_duration := dict_get (rd_duration r) None,
            language := dict_get (rd_language r) None,
            confidence := dict_get (rd_confidence r) None,
            result_data := Some r,
            updated_at := now\<rparr>
        else j) (jobs db)\<rparr>"

definition insert_speaker_segment ::
  "string \<Rightarrow> database \<Rightarrow> segment_dict \<Rightarrow> exn + database" where
  "insert_speaker_segment jid db seg =
     (case (dict_get (sd_speaker seg) (Some ''UNKNOWN''),
            dict_get (sd_start seg) (Some 0),
            dict_get (sd_end seg) (Some 0),
            dict_get (sd_text seg) (Some '''')) of
        (Some sp, Some s, Some e, Some t) \<Rightarrow>
          Inr (db\<lparr>speaker_segments := speaker_segments db @
            [\<lparr>ss_job_id = jid, ss_speaker = sp, ss_start_time = s, ss_end_time = e,
              ss_text = t\<rparr>]\<rparr>)
      | _ \<Rightarrow> Inl (Exception ''NOT NULL constraint failed: speaker_segments''))"

definition insert_word_segment ::
  "string \<Rightarrow> database \<Rightarrow> word_dict \<Rightarrow> exn + database" where
  "insert_word_segment jid db w =
     (case (dict_get (wd_word w) (Some ''''),
            dict_get (wd_start w) (Some 0),
            dict_get (wd_end w) (Some 0)) of
        (Some t, Some s, Some e) \<Rightarrow>
          Inr (db\<lparr>word_segments := word_segments db @
            [\<lparr>ws_job_id = jid, ws_word = t, ws_start_time = s, ws_end_time = e,
              ws_speaker = dict_get (wd_speaker w) (Some ''UNKNOWN''),
              ws_confidence = dict_get (wd_confidence w) (Some (4 / 5))\<rparr>]\<rparr>)
      | _ \<Rightarrow> Inl (Exception ''NOT NULL constraint failed: word_segments''))"

definition save_speaker_segments :: "string \<Rightarrow> result_dict \<Rightarrow> database \<Rightarrow> exn + database" where
  "save_speaker_segments jid r db =
     (if dict_has (rd_speaker_segments r) then
        (case iterate (dict_get (rd_speaker_segments r) None) of
           Inl e \<Rightarrow> Inl e
         | Inr segs \<Rightarrow> for_each (insert_speaker_segment jid) segs db)
      else Inr db)"

definition save_word_segments :: "string \<Rightarrow> result_dict \<Rightarrow> database \<Rightarrow> exn + database" where
  "save_word_segments jid r db =
     (if dict_has (rd_word_segments r) then
        (case iterate (dict_get (rd_word_segments r) None) of
           Inl e \<Rightarrow> Inl e
         | Inr ws \<Rightarrow> for_each (insert_word_segment jid) ws db)
      else Inr db)"

definition save_job_result_body ::
  "database \<Rightarrow> string \<Rightarrow> result_dict \<Rightarrow> timestamp \<Rightarrow> exn + database" where
  "save_job_result_body db jid r now =
     (case save_speaker_segments jid r (update_main_job_record jid r now db) of
        Inl e \<Rightarrow> Inl e
      | Inr db1 \<Rightarrow> save_word_segments jid r db1)"

text \<open>
  \<open>save_job_result\<close>: the body's changes are committed when it ends, and rolled back
  (the database is as before the call) when it raises.
\<close>

definition save_job_result ::
  "database \<Rightarrow> string \<Rightarrow> result_dict \<Rightarrow> timestamp \<Rightarrow> bool \<times> database" where
  "save_job_result db jid r now =
     (case save_job_result_body db jid r now of
        Inl e \<Rightarrow> (False, db)
      | Inr db' \<Rightarrow> (True, db'))"


section \<open>The engine's answer\<close>

text \<open>
  \<open>whisperx_service.transcribe_audio\<close> is outside the service: it raises, or it returns
  a dictionary with the keys \<open>segments\<close> and \<open>language\<close>; a segment has \<open>start\<close>,
  \<open>end\<close>, \<open>text\<close>, \<open>speaker\<close> and \<open>words\<close>, a word has \<open>start\<close>, \<open>end\<close>, \<open>word\<close>
  and \<open>speaker\<close>. The schema of a word declares \<open>speaker: Optional[str]\<close>, so the key
  may hold \<open>None\<close>.
\<close>

record engine_word =
  ew_start :: "num field"
  ew_end :: "num field"
  ew_word :: "string field"
  ew_speaker :: "string field"

record engine_segment =
  es_start :: "num field"
  es_end :: "num field"
  es_text :: "string field"
  es_speaker :: "string field"
  es_words :: "engine_word list field"

record engine_result =
  er_segments :: "engine_segment list field"
  er_language :: "string field"

type_synonym engine_outcome = "exn + engine_result"


section \<open>The endpoints (app/api/v1/endpoints/jobs.py)\<close>

datatype http_error = HTTPException nat string

record JobResponse =
  jr_job_id :: string
  jr_status :: JobStatus
  jr_created_at :: timestamp
  jr_updated_at :: timestamp
  jr_audio_file :: string
  jr_model_size :: string
  jr_enable_diarization :: bool
  jr_enable_alignment :: bool
  jr_progress :: num
  jr_current_stage :: "ProcessingStage option"
  jr_error_message :: "string option"
  jr_result :: "result_dict option"

record JobListResponse =
  jl_jobs :: "JobResponse list"
  jl_total :: nat
  jl_page :: int
  jl_per_page :: int
  jl_has_next :: bool
  jl_has_prev :: bool

text \<open>The arguments of one call of \<open>process_audio_job\<close>, as \<open>add_task\<close> records them.\<close>

record task =
  t_job_id :: string
  t_audio_path :: string
  t_model_size :: "string option"
  t_enable_diarization :: "bool option"
  t_enable_alignment :: "bool option"
  t_language :: "string option"

text \<open>
  Building a \<open>JobResponse\<close> validates its fields: a required field rejects \<open>None\<close>,
  \<open>model_size\<close> must be a value of \<open>ModelSize\<close>, and \<open>result\<close> must fit
  \<open>TranscriptionResult\<close> (\<open>text\<close>, \<open>language\<close> and \<open>duration\<close> required; the lists and
  the two scores have defaults but reject \<open>None\<close>; extra keys are allowed). The
  endpoints turn a validation error into status 500.
\<close>

definition required :: "'a field \<Rightarrow> bool" where
  "required f = (case f of Held v \<Rightarrow> True | _ \<Rightarrow> False)"

definition defaulted :: "'a field \<Rightarrow> bool" where
  "defaulted f = (case f of PyNone \<Rightarrow> False | _ \<Rightarrow> True)"

definition valid_WordSegment :: "word_dict \<Rightarrow> bool" where
  "valid_WordSegment w = (required (wd_word w) \<and> required (wd_start w) \<and> required (wd_end w))"

definition valid_SpeakerSegment :: "segment_dict \<Rightarrow> bool" where
  "valid_SpeakerSegment s =
     (required (sd_start s) \<and> required (sd_end s) \<and> required (sd_text s) \<and>
      defaulted (sd_speaker s))"

definition valid_TranscriptionResult :: "result_dict \<Rightarrow> bool" where
  "valid_TranscriptionResult r =
     (required (rd_text r) \<and> required (rd_language r) \<and> required (rd_duration r) \<and>
      (case rd_word_segments r of Absent \<Rightarrow> True | PyNone \<Rightarrow> False
       | Held ws \<Rightarrow> list_all valid_WordSegment ws) \<and>
      (case rd_speaker_segments r of Absent \<Rightarrow> True | PyNone \<Rightarrow> False
       | Held ss \<Rightarrow> list_all valid_SpeakerSegment ss) \<and>
      defaulted (rd_confidence r) \<and> defaulted (rd_processing_time r))"

definition internal_server_error :: http_error where
  "internal_server_error = HTTPException 500 ''Internal server error''"

definition make_JobResponse ::
  "string \<Rightarrow> JobStatus \<Rightarrow> timestamp \<Rightarrow> timestamp \<Rightarrow> string option \<Rightarrow> string option \<Rightarrow>
   bool option \<Rightarrow> bool option \<Rightarrow> num \<Rightarrow> ProcessingStage \<Rightarrow> string option \<Rightarrow>
   result_dict option \<Rightarrow> http_error + JobResponse" where
  "make_JobResponse jid st created updated audio msize diar align progress stage err res =
     (case (audio, msize, diar, align) of
        (Some a, Some m, Some d, Some al) \<Rightarrow>
          if m \<in> set ModelSize \<and> (case res of None \<Rightarrow> True | Some r \<Rightarrow> valid_TranscriptionResult r)
          then Inr \<lparr>jr_job_id = jid, jr_status = st, jr_created_at = created,
                    jr_updated_at = updated, jr_audio_file = a, jr_model_size = m,
                    jr_enable_diarization = d, jr_enable_alignment = al,
                    jr_progress = progress, jr_current_stage = Some stage,
                    jr_error_message = err, jr_result = res\<rparr>
          else Inl internal_server_error
      | _ \<Rightarrow> Inl internal_server_error)"

text \<open>"Convert database job to response model", the same in \<open>get_job\<close> and \<open>list_jobs\<close>.\<close>

definition job_to_response :: "job \<Rightarrow> http_error + JobResponse" where
  "job_to_response j =
     make_JobResponse (job_id j) (status j) (created_at j) (updated_at j) (filename j)
       (model_size j) (enable_diarization j) (enable_alignment j)
       (if status j = COMPLETED then 1 else 0)
       (if status j = COMPLETED then STAGE_COMPLETED else UPLOAD)
       (error_message j) (result_data j)"

text \<open>The route \<open>GET /{job_id}\<close>, function \<open>get_job\<close> of the endpoints.\<close>

definition get_job_endpoint :: "database \<Rightarrow> string \<Rightarrow> http_error + JobResponse" where
  "get_job_endpoint db jid =
     (case get_job db jid of
        None \<Rightarrow> Inl (HTTPException 404 ''Job not found'')
      | Some j \<Rightarrow> job_to_response j)"

text \<open>All responses of a page, or the first failure.\<close>

fun job_responses :: "job list \<Rightarrow> http_error + JobResponse list" where
  "job_responses [] = Inr []"
| "job_responses (j # js) =
     (case job_to_response j of
        Inl e \<Rightarrow> Inl e
      | Inr r \<Rightarrow> (case job_responses js of Inl e \<Rightarrow> Inl e | Inr rs \<Rightarrow> Inr (r # rs)))"

text \<open>
  \<open>list_jobs\<close>. The framework rejects \<open>page < 1\<close> and \<open>per_page\<close> outside 1..100 with
  status 422 before the body runs.
\<close>

definition list_jobs ::
  "database \<Rightarrow> int \<Rightarrow> int \<Rightarrow> JobStatus option \<Rightarrow> http_error + JobListResponse" where
  "list_jobs db page per_page st =
     (if page < 1 \<or> per_page < 1 \<or> 100 < per_page
      then Inl (HTTPException 422 ''Unprocessable Entity'')
      else
        let offset = (page - 1) * per_page;
            page_jobs = get_jobs db per_page offset st;
            all_jobs = get_jobs db 1000 0 st;
            total = length all_jobs
        in case job_responses page_jobs of
             Inl e \<Rightarrow> Inl internal_server_error
           | Inr rs \<Rightarrow>
               Inr \<lparr>jl_jobs = rs, jl_total = total, jl_page = page, jl_per_page = per_page,
                    jl_has_next = (page * per_page < int total),
                    jl_has_prev = (page > 1)\<rparr>)"

text \<open>
  \<open>retry_job\<close>. The task is handed over with the response; a response that fails to
  build leaves the status already reset and no task.
\<close>

definition retry_job ::
  "database \<Rightarrow> string \<Rightarrow> timestamp \<Rightarrow> (http_error + JobResponse \<times> task) \<times> database" where
  "retry_job db jid now =
     (case get_job db jid of
        None \<Rightarrow> (Inl (HTTPException 404 ''Job not found''), db)
      | Some j \<Rightarrow>
          if status j \<notin> set [FAILED]
          then (Inl (HTTPException 400 ''Only failed jobs can be retried''), db)
          else
            let db' = snd (update_job_status db jid PENDING None now);
                file_path = ''/tmp/whisperx-uploads/'' @ jid @ ''.mp3'';
                tk = \<lparr>t_job_id = jid, t_audio_path = file_path,
                      t_model_size = model_size j,
                      t_enable_diarization = enable_diarization j,
                      t_enable_alignment = enable_alignment j,
                      t_language = language j\<rparr>
            in (case make_JobResponse jid PENDING (created_at j) now (filename j)
                       (model_size j) (enable_diarization j) (enable_alignment j)
                       0 UPLOAD None None of
                  Inl e \<Rightarrow> (Inl e, db')
                | Inr r \<Rightarrow> (Inr (r, tk), db')))"

text \<open>\<open>cancel_job\<close>; its success value is the message.\<close>

definition cancel_job ::
  "database \<Rightarrow> string \<Rightarrow> timestamp \<Rightarrow> (http_error + string) \<times> database" where
  "cancel_job db jid now =
     (case get_job db jid of
        None \<Rightarrow> (Inl (HTTPException 404 ''Job not found''), db)
      | Some j \<Rightarrow>
          if status j \<in> set [COMPLETED, FAILED]
          then (Inl (HTTPException 400 ''Cannot cancel completed or failed job''), db)
          else
            (case update_job_status db jid CANCELLED None now of
               (True, db') \<Rightarrow> (Inr ''Job cancelled successfully'', db')
             | (False, db') \<Rightarrow> (Inl (HTTPException 500 ''Failed to cancel job''), db')))"

text \<open>
  \<open>upload_and_process\<close>, from "Save job to database" on. What comes before (the
  checks of name, format and size, saving and validating the file) either raises or
  goes on, and changes nothing in the database. \<open>jid\<close> is the identifier that
  \<open>uuid4\<close> drew and \<open>file_path\<close> the path the file was saved under.
\<close>

definition upload_and_process ::
  "database \<Rightarrow> string \<Rightarrow> string \<Rightarrow> string \<Rightarrow> string \<Rightarrow> bool \<Rightarrow> bool \<Rightarrow> string option \<Rightarrow>
   timestamp \<Rightarrow> (http_error + JobResponse \<times> task) \<times> database" where
  "upload_and_process db jid file_path fname msize diar align lang now =
     (case create_job db
             \<lparr>jd_job_id = jid, jd_filename = fname, jd_model_size = Held msize,
              jd_enable_diarization = Held diar, jd_enable_alignment = Held align,
              jd_language = Absent\<rparr> now of
        (False, db') \<Rightarrow> (Inl (HTTPException 500 ''Failed to create job in database''), db')
      | (True, db') \<Rightarrow>
          (case make_JobResponse jid PENDING now now (Some fname) (Some msize)
                  (Some diar) (Some align) 0 UPLOAD None None of
             Inl e \<Rightarrow> (Inl e, db')
           | Inr r \<Rightarrow>
               (Inr (r, \<lparr>t_job_id = jid, t_audio_path = file_path,
                         t_model_size = Some msize, t_enable_diarization = Some diar,
                         t_enable_alignment = Some align, t_language = lang\<rparr>), db')))"


section \<open>Background processing (\<open>process_audio_job\<close>)\<close>

text \<open>
  \<open>" ".join(texts)\<close> raises a \<open>TypeError\<close> when an item is \<open>None\<close>.
\<close>

fun join :: "string \<Rightarrow> string list \<Rightarrow> string" where
  "join sep [] = []"
| "join sep [x] = x"
| "join sep (x # y # ys) = x @ sep @ join sep (y # ys)"

definition str_join :: "string \<Rightarrow> string option list \<Rightarrow> exn + string" where
  "str_join sep xs =
     (if None \<in> set xs then Inl (Exception ''sequence item: expected str instance, NoneType found'')
      else Inr (join sep (map the xs)))"

text \<open>
  \<open>max\<close> over a non-empty sequence: the first item is the candidate, and every later
  item is compared with the candidate by \<open>>\<close>, which raises a \<open>TypeError\<close> when either
  side is \<open>None\<close>. A sequence of one item is returned without any comparison.
\<close>

fun max_from :: "num option \<Rightarrow> num option list \<Rightarrow> exn + num option" where
  "max_from m [] = Inr m"
| "max_from m (x # xs) =
     (case (x, m) of
        (Some a, Some b) \<Rightarrow> max_from (if a > b then x else m) xs
      | _ \<Rightarrow> Inl (Exception ''> not supported between instances''))"

fun py_max :: "num option list \<Rightarrow> exn + num option" where
  "py_max [] = Inl (Exception ''max() arg is an empty sequence'')"
| "py_max (x # xs) = max_from x xs"

text \<open>The body of the loop "Process segments": one speaker segment, then its words.\<close>

definition word_segment :: "engine_word \<Rightarrow> word_dict" where
  "word_segment w =
     \<lparr>wd_start = dict_item (dict_get (ew_start w) (Some 0)),
      wd_end = dict_item (dict_get (ew_end w) (Some 0)),
      wd_word = dict_item (dict_get (ew_word w) (Some [])),
      wd_speaker = dict_item (dict_get (ew_speaker w) (Some ''UNKNOWN'')),
      wd_confidence = Held (4 / 5)\<rparr>"

definition speaker_segment :: "engine_segment \<Rightarrow> segment_dict" where
  "speaker_segment seg =
     \<lparr>sd_start = dict_item (dict_get (es_start seg) (Some 0)),
      sd_end = dict_item (dict_get (es_end seg) (Some 0)),
      sd_text = dict_item (dict_get (es_text seg) (Some [])),
      sd_speaker = dict_item (dict_get (es_speaker seg) (Some ''UNKNOWN''))\<rparr>"

definition process_segment ::
  "segment_dict list \<times> word_dict list \<Rightarrow> engine_segment \<Rightarrow>
   exn + segment_dict list \<times> word_dict list" where
  "process_segment acc seg =
     (case iterate (dict_get (es_words seg) (Some [])) of
        Inl e \<Rightarrow> Inl e
      | Inr ws \<Rightarrow> Inr (fst acc @ [speaker_segment seg], snd acc @ map word_segment ws))"

text \<open>
  From "Save result to database" to the stamping of \<open>processing_time\<close>: the engine's
  dictionary becomes \<open>result_dict\<close>, or an exception leaves the \<open>try\<close> block.
  \<open>elapsed\<close> is \<open>time.time() - start_time\<close>.
\<close>

definition convert_result :: "engine_result \<Rightarrow> num \<Rightarrow> exn + result_dict" where
  "convert_result result elapsed =
     (case iterate (dict_get (er_segments result) (Some [])) of
        Inl e \<Rightarrow> Inl e
      | Inr segments \<Rightarrow>
     (case str_join '' '' (map (\<lambda>seg. dict_get (es_text seg) (Some [])) segments) of
        Inl e \<Rightarrow> Inl e
      | Inr full_text \<Rightarrow>
     (case for_each process_segment segments ([], []) of
        Inl e \<Rightarrow> Inl e
      | Inr (sps, wds) \<Rightarrow>
     (case (if segments \<noteq> []
            then py_max (map (\<lambda>seg. dict_get (es_end seg) (Some 0)) segments)
            else Inr (Some 0)) of
        Inl e \<Rightarrow> Inl e
      | Inr duration \<Rightarrow>
          Inr \<lparr>rd_text = Held full_text,
               rd_language = dict_item (dict_get (er_language result) (Some ''en'')),
               rd_duration = dict_item duration,
               rd_word_segments = Held wds,
               rd_speaker_segments = Held sps,
               rd_confidence = Held (4 / 5),
               rd_processing_time = Held elapsed,
               rd_error = Absent\<rparr>))))"

text \<open>The result written when the engine raised.\<close>

definition partial_result :: "string option \<Rightarrow> num \<Rightarrow> exn \<Rightarrow> result_dict" where
  "partial_result lang elapsed transcription_error =
     \<lparr>rd_text = Held ''Transcription failed'',
      rd_language = Held (py_or lang ''en''),
      rd_duration = Held 0,
      rd_word_segments = Held [],
      rd_speaker_segments = Held [],
      rd_confidence = Held 0,
      rd_processing_time = Held elapsed,
      rd_error = Held (str transcription_error)\<rparr>"

text \<open>
  \<open>process_audio_job\<close> suspends once, at \<open>await whisperx_service.transcribe_audio\<close>;
  other requests are served meanwhile. \<open>process_audio_job_begin\<close> is the part before
  the call and \<open>process_audio_job_resume\<close> the part after it, given how the call
  ended. The handler of the outer \<open>try\<close> marks the job failed with \<open>str(e)\<close>.
  \<open>started\<close> is the time of the write before the call and \<open>now\<close> the time of the
  writes after it, which follow each other without a suspension point.
\<close>

definition mark_failed :: "database \<Rightarrow> string \<Rightarrow> exn \<Rightarrow> timestamp \<Rightarrow> database" where
  "mark_failed db jid e now = snd (update_job_status db jid FAILED (Some (str e)) now)"

definition process_audio_job_begin :: "database \<Rightarrow> string \<Rightarrow> timestamp \<Rightarrow> database" where
  "process_audio_job_begin db jid now = snd (update_job_status db jid PROCESSING None now)"

definition process_audio_job_resume ::
  "database \<Rightarrow> string \<Rightarrow> string option \<Rightarrow> engine_outcome \<Rightarrow> timestamp \<Rightarrow> num \<Rightarrow> database" where
  "process_audio_job_resume db jid lang outcome now elapsed =
     (case outcome of
        Inl transcription_error \<Rightarrow>
          mark_failed
            (snd (save_job_result db jid (partial_result lang elapsed transcription_error) now))
            jid transcription_error now
      | Inr result \<Rightarrow>
          (case convert_result result elapsed of
             Inl e \<Rightarrow> mark_failed db jid e now
           | Inr result_dict \<Rightarrow> snd (save_job_result db jid result_dict now)))"

definition process_audio_job ::
  "database \<Rightarrow> task \<Rightarrow> engine_outcome \<Rightarrow> timestamp \<Rightarrow> timestamp \<Rightarrow> num \<Rightarrow> database" where
  "process_audio_job db tk outcome started now elapsed =
     process_audio_job_resume (process_audio_job_begin db (t_job_id tk) started)
       (t_job_id tk) (t_language tk) outcome now elapsed"


section \<open>The service as a whole\<close>

text \<open>
  What changes the database: an upload, the two halves of a background run, a retry and
  a cancellation. Requests are served one at a time between the suspension points, so a
  history of the service is a list of events. The model lets the halves of a run occur
  for any job at any moment, which includes every schedule the service produces.
\<close>

datatype event =
    Upload string string string string bool bool "string option" timestamp
  | Begin string timestamp
  | Resume string "string option" engine_outcome timestamp num
  | Retry string timestamp
  | Cancel string timestamp

fun step :: "database \<Rightarrow> event \<Rightarrow> database" where
  "step db (Upload jid path fname msize diar align lang now) =
     snd (upload_and_process db jid path fname msize diar align lang now)"
| "step db (Begin jid now) = process_audio_job_begin db jid now"
| "step db (Resume jid lang outcome now elapsed) =
     process_audio_job_resume db jid lang outcome now elapsed"
| "step db (Retry jid now) = snd (retry_job db jid now)"
| "step db (Cancel jid now) = snd (cancel_job db jid now)"

definition run :: "event list \<Rightarrow> database" where
  "run evs = foldl step empty_database evs"





section \<open>Example histories\<close>

text \<open>
  The scenario of the specification: job \<open>abc\<close> is uploaded with file \<open>a.wav\<close> and
  model size \<open>base\<close>; its run fails with "decode error"; it is retried; it is cancelled.
\<close>

definition example_upload :: event where
  "example_upload =
     Upload ''abc'' ''/tmp/whisperx-uploads/abc.wav'' ''a.wav'' ''base'' True True None 0"

definition decode_error :: engine_outcome where
  "decode_error = Inl (Exception ''decode error'')"

definition pending_db :: database where
  "pending_db = run [example_upload]"

definition failed_db :: database where
  "failed_db = run [example_upload, Begin ''abc'' 1, Resume ''abc'' None decode_error 2 1]"

definition cancelled_db :: database where
  "cancelled_db = run [example_upload, Cancel ''abc'' 1]"

text \<open>The answer of the engine's mock implementation, and a run that ends well.\<close>

definition mock_word :: "num \<Rightarrow> num \<Rightarrow> string \<Rightarrow> engine_word" where
  "mock_word s e w =
     \<lparr>ew_start = Held s, ew_end = Held e, ew_word = Held w, ew_speaker = Held ''SPEAKER_00''\<rparr>"

definition mock_result :: engine_result where
  "mock_result =
     \<lparr>er_segments = Held
        [\<lparr>es_start = Held 0, es_end = Held 5,
          es_text = Held ''This is a mock transcription result.'',
          es_speaker = Held ''SPEAKER_00'',
          es_words = Held [mock_word 0 1 ''This'', mock_word 1 2 ''is'', mock_word 2 3 ''a'',
                           mock_word 3 5 ''mock transcription.'']\<rparr>],
      er_language = Held ''en''\<rparr>"

definition completed_db :: database where
  "completed_db = run [example_upload, Begin ''abc'' 1, Resume ''abc'' None (Inr mock_result) 2 1]"

definition two_jobs_db :: database where
  "two_jobs_db =
     run [example_upload, Begin ''abc'' 1, Resume ''abc'' None (Inr mock_result) 2 1,
          Upload ''xyz'' ''/tmp/whisperx-uploads/xyz.mp3'' ''b.mp3'' ''large-v2'' True True None 3]"

text \<open>The segments and the words of a result dictionary, when it holds lists of them.\<close>

definition segments_of :: "result_dict \<Rightarrow> segment_dict list" where
  "segments_of r = (case rd_speaker_segments r of Held ss \<Rightarrow> ss | _ \<Rightarrow> [])"

definition words_of :: "result_dict \<Rightarrow> word_dict list" where
  "words_of r = (case rd_word_segments r of Held ws \<Rightarrow> ws | _ \<Rightarrow> [])"

text \<open>
  A result that the store accepts, and one that it rejects at its second segment, whose
  \<open>end\<close> is \<open>None\<close>.
\<close>

definition good_segment :: segment_dict where
  "good_segment = \<lparr>sd_start = Held 0, sd_end = Held 5, sd_text = Held ''hello there'',
                    sd_speaker = Held ''SPEAKER_00''\<rparr>"

definition good_result :: result_dict where
  "good_result =
     \<lparr>rd_text = Held ''hello there'', rd_language = Held ''en'', rd_duration = Held 5,
      rd_word_segments = Held
        [\<lparr>wd_start = Held 0, wd_end = Held 2, wd_word = Held ''hello'',
          wd_speaker = Held ''SPEAKER_00'', wd_confidence = Held (4 / 5)\<rparr>,
         \<lparr>wd_start = Held 2, wd_end = Held 5, wd_word = Held ''there'',
          wd_speaker = Absent, wd_confidence = Absent\<rparr>],
      rd_speaker_segments = Held [good_segment],
      rd_confidence = Held (4 / 5), rd_processing_time = Held 1, rd_error = Absent\<rparr>"

definition bad_result :: result_dict where
  "bad_result = good_result\<lparr>rd_speaker_segments := Held [good_segment, good_segment\<lparr>sd_end := PyNone\<rparr>]\<rparr>"

text \<open>The task that the upload of job \<open>abc\<close> hands over, and a failure without description.\<close>

definition example_task :: task where
  "example_task =
     \<lparr>t_job_id = ''abc'', t_audio_path = ''/tmp/whisperx-uploads/abc.wav'',
      t_model_size = Some ''base'', t_enable_diarization = Some True,
      t_enable_alignment = Some True, t_language = None\<rparr>"

definition silent_error :: engine_outcome where
  "silent_error = Inl (Exception [])"

text \<open>An answer of the engine whose key \<open>segments\<close> holds \<open>None\<close>.\<close>

definition null_segments :: engine_result where
  "null_segments = \<lparr>er_segments = PyNone, er_language = Held ''en''\<rparr>"

text \<open>The words of an engine segment, when it holds a list of them.\<close>

definition engine_words :: "engine_segment \<Rightarrow> engine_word list" where
  "engine_words seg = (case es_words seg of Held ws \<Rightarrow> ws | _ \<Rightarrow> [])"

text \<open>
  Engine answers for the scenario on speaker labels: the first segment and its word
  carry no \<open>speaker\<close> key, the second segment and its word are labelled. In the second
  answer the key \<open>speaker\<close> of a word holds \<open>None\<close>.
\<close>

definition unlabelled_word :: engine_word where
  "unlabelled_word = \<lparr>ew_start = Held 0, ew_end = Held 1, ew_word = Held ''hello'',
                       ew_speaker = Absent\<rparr>"

definition labelled_word :: engine_word where
  "labelled_word = \<lparr>ew_start = Held 1, ew_end = Held 2, ew_word = Held ''there'',
                     ew_speaker = Held ''SPEAKER_01''\<rparr>"

definition partly_labelled :: engine_result where
  "partly_labelled =
     \<lparr>er_segments = Held
        [\<lparr>es_start = Held 0, es_end = Held 1, es_text = Held ''hello'', es_speaker = Absent,
          es_words = Held [unlabelled_word]\<rparr>,
         \<lparr>es_start = Held 1, es_end = Held 2, es_text = Held ''there'',
          es_speaker = Held ''SPEAKER_01'', es_words = Held [labelled_word]\<rparr>],
      er_language = Held ''en''\<rparr>"

definition null_speaker_word :: engine_result where
  "null_speaker_word =
     \<lparr>er_segments = Held
        [\<lparr>es_start = Held 0, es_end = Held 1, es_text = Held ''hello'',
          es_speaker = Held ''SPEAKER_00'',
          es_words = Held [unlabelled_word\<lparr>ew_speaker := PyNone\<rparr>]\<rparr>],
      er_language = Held ''en''\<rparr>"

text \<open>
  A history of \<open>n\<close> uploads, the \<open>i\<close>-th at time \<open>i\<close> under an identifier of \<open>i + 1\<close>
  letters.
\<close>

definition bulk_upload :: "nat \<Rightarrow> event" where
  "bulk_upload i =
     Upload (replicate (Suc i) CHR ''j'') ''/tmp/whisperx-uploads/j.wav'' ''a.wav'' ''base''
       True True None i"

definition bulk_db :: "nat \<Rightarrow> database" where
  "bulk_db n = run (map bulk_upload [0..<n])"

text \<open>The jobs that a listing with this filter is about.\<close>

definition matching :: "database \<Rightarrow> JobStatus option \<Rightarrow> job list" where
  "matching db st =
     (case st of None \<Rightarrow> jobs db | Some v \<Rightarrow> filter (\<lambda>j. status j = v) (jobs db))"

text \<open>
  The scenario continued: the failed job is retried, and the second run ends well.
\<close>

definition retried_db :: database where
  "retried_db =
     run [example_upload, Begin ''abc'' 1, Resume ''abc'' None decode_error 2 1, Retry ''abc'' 3]"




text \<open>An answer of the engine whose only segment has \<open>None\<close> for its \<open>end\<close>.\<close>

definition endless_segment :: engine_result where
  "endless_segment =
     \<lparr>er_segments = Held
        [\<lparr>es_start = Held 0, es_end = PyNone, es_text = Held ''hello'',
          es_speaker = Held ''SPEAKER_00'', es_words = Held []\<rparr>],
      er_language = Held ''en''\<rparr>"


section \<open>Properties\<close>

lemmas db_defs = create_job_def get_job_def get_jobs_def update_job_status_def
  update_main_job_record_def insert_speaker_segment_def insert_word_segment_def
  save_speaker_segments_def save_word_segments_def save_job_result_body_def save_job_result_def
  empty_database_def

lemmas api_defs = make_JobResponse_def job_to_response_def get_job_endpoint_def list_jobs_def
  retry_job_def cancel_job_def upload_and_process_def ModelSize_def internal_server_error_def
  valid_TranscriptionResult_def valid_WordSegment_def valid_SpeakerSegment_def required_def
  defaulted_def

lemmas run_defs = process_audio_job_def process_audio_job_begin_def
  process_audio_job_resume_def mark_failed_def partial_result_def convert_result_def
  process_segment_def speaker_segment_def word_segment_def str_join_def py_or_def
  not_iterable_def run_def

lemmas example_defs = example_upload_def decode_error_def pending_db_def failed_db_def
  cancelled_db_def

subsection \<open>Looking a job up\<close>

lemma find_map_same_id:
  assumes "\<And>j. job_id (f j) = job_id j"
  shows "find (\<lambda>j. job_id j = jid) (map f js) = map_option f (find (\<lambda>j. job_id j = jid) js)"
  using assms by (induction js) auto

lemma get_job_Some_id: "get_job db jid = Some j \<Longrightarrow> job_id j = jid"
  unfolding get_job_def by (auto simp: find_Some_iff)

lemma get_job_Some_mem: "get_job db jid = Some j \<Longrightarrow> j \<in> set (jobs db)"
  unfolding get_job_def by (auto simp: find_Some_iff)

lemma get_job_None_iff: "get_job db jid = None \<longleftrightarrow> (\<forall>j \<in> set (jobs db). job_id j \<noteq> jid)"
  unfolding get_job_def by (auto simp: find_None_iff)

lemma get_job_update_job_status:
  "get_job (snd (update_job_status db jid st err now)) k =
     map_option (\<lambda>j. if job_id j = jid then
          (if truthy err
           then j\<lparr>status := st, error_message := err, updated_at := now\<rparr>
           else j\<lparr>status := st, updated_at := now\<rparr>)
        else j) (get_job db k)"
  unfolding get_job_def update_job_status_def
  by (simp add: find_map_same_id)

lemma update_job_status_missing:
  assumes "get_job db jid = None"
  shows "update_job_status db jid st err now = (True, db)"
proof -
  from assms have "\<forall>j \<in> set (jobs db). job_id j \<noteq> jid"
    by (simp add: get_job_None_iff)
  then have "map (\<lambda>j. if job_id j = jid then
          (if truthy err
           then j\<lparr>status := st, error_message := err, updated_at := now\<rparr>
           else j\<lparr>status := st, updated_at := now\<rparr>)
        else j) (jobs db) = jobs db"
    by (simp add: map_idI)
  then show ?thesis unfolding update_job_status_def by simp
qed

subsection \<open>\<open>update_job_status\<close>\<close>

text \<open>
  C6, as the code has it: \<open>update_job_status\<close> always reports success; the row of the
  job, when there is one, gets the new status and \<open>updated_at\<close> set to the time of the
  call; for a \<open>job_id\<close> that is not in the table nothing changes, and the call still
  reports success rather than rejecting the update.
\<close>

theorem update_job_status_refreshes_updated_at:
  "fst (update_job_status db jid st err now) = True \<and>
   (\<forall>j. get_job db jid = Some j \<longrightarrow>
      (\<exists>j'. get_job (snd (update_job_status db jid st err now)) jid = Some j' \<and>
            updated_at j' = now \<and> status j' = st)) \<and>
   (get_job db jid = None \<longrightarrow> snd (update_job_status db jid st err now) = db)"
proof (intro conjI allI impI)
  show "fst (update_job_status db jid st err now) = True"
    by (simp add: update_job_status_def)
next
  fix j assume "get_job db jid = Some j"
  then show "\<exists>j'. get_job (snd (update_job_status db jid st err now)) jid = Some j' \<and>
            updated_at j' = now \<and> status j' = st"
    by (simp add: get_job_update_job_status get_job_Some_id)
next
  assume "get_job db jid = None"
  then show "snd (update_job_status db jid st err now) = db"
    by (simp add: update_job_status_missing)
qed

theorem update_job_status_refreshes_updated_at_witness:
  "map updated_at (jobs pending_db) = [0] \<and>
   get_job pending_db ''ghost'' = None \<and>
   fst (update_job_status pending_db ''abc'' PROCESSING None 7) = True \<and>
   map updated_at (jobs (snd (update_job_status pending_db ''abc'' PROCESSING None 7))) = [7] \<and>
   snd (update_job_status pending_db ''ghost'' PROCESSING None 7) = pending_db"
  using update_job_status_refreshes_updated_at [of pending_db "''abc''" PROCESSING None 7]
    update_job_status_refreshes_updated_at [of pending_db "''ghost''" PROCESSING None 7]
  by (simp add: example_defs db_defs api_defs run_defs)

text \<open>
  The claim as the specification words it fails: an update of a job that does not exist
  is answered with success.
\<close>

theorem update_job_status_missing_job_counterexample:
  "get_job pending_db ''ghost'' = None \<and>
   fst (update_job_status pending_db ''ghost'' FAILED (Some ''boom'') 9) = True"
  by (simp add: example_defs db_defs api_defs run_defs)



subsection \<open>\<open>cancel_job\<close> and \<open>retry_job\<close>\<close>

text \<open>
  C4, as the code has it: \<open>cancel_job\<close> refuses a job that is COMPLETED or FAILED with
  status 400 and leaves the database as it is; for a job in any other status, PENDING,
  PROCESSING or CANCELLED, it succeeds and the job's row becomes CANCELLED.
\<close>

theorem cancel_job_by_status:
  assumes "get_job db jid = Some j"
  shows "(status j \<in> {COMPLETED, FAILED} \<longrightarrow>
            cancel_job db jid now =
              (Inl (HTTPException 400 ''Cannot cancel completed or failed job''), db)) \<and>
         (status j \<in> {PENDING, PROCESSING, CANCELLED} \<longrightarrow>
            fst (cancel_job db jid now) = Inr ''Job cancelled successfully'' \<and>
            get_job (snd (cancel_job db jid now)) jid =
              Some (j\<lparr>status := CANCELLED, updated_at := now\<rparr>))"
proof (intro conjI impI)
  assume "status j \<in> {COMPLETED, FAILED}"
  with assms show "cancel_job db jid now =
      (Inl (HTTPException 400 ''Cannot cancel completed or failed job''), db)"
    by (auto simp: cancel_job_def)
next
  assume s: "status j \<in> {PENDING, PROCESSING, CANCELLED}"
  have u: "update_job_status db jid CANCELLED None now =
             (True, snd (update_job_status db jid CANCELLED None now))"
    by (simp add: update_job_status_def)
  from assms s have c: "cancel_job db jid now =
      (Inr ''Job cancelled successfully'', snd (update_job_status db jid CANCELLED None now))"
    unfolding cancel_job_def by (subst u) auto
  from c show "fst (cancel_job db jid now) = Inr ''Job cancelled successfully''"
    by simp
  from assms have "job_id j = jid"
    by (rule get_job_Some_id)
  with assms c show "get_job (snd (cancel_job db jid now)) jid =
      Some (j\<lparr>status := CANCELLED, updated_at := now\<rparr>)"
    by (simp add: get_job_update_job_status)
qed

theorem cancel_job_by_status_witness:
  "map status (jobs pending_db) = [PENDING] \<and>
   fst (cancel_job pending_db ''abc'' 1) = Inr ''Job cancelled successfully'' \<and>
   map status (jobs (snd (cancel_job pending_db ''abc'' 1))) = [CANCELLED] \<and>
   map status (jobs failed_db) = [FAILED] \<and>
   cancel_job failed_db ''abc'' 3 =
     (Inl (HTTPException 400 ''Cannot cancel completed or failed job''), failed_db)"
proof -
  have p: "get_job pending_db ''abc'' = Some (hd (jobs pending_db))"
    by (simp add: example_defs db_defs api_defs run_defs)
  have f: "get_job failed_db ''abc'' = Some (hd (jobs failed_db))"
    by (simp add: example_defs db_defs api_defs run_defs)
  show ?thesis
    using cancel_job_by_status [OF p, of 1] cancel_job_by_status [OF f, of 3]
    by (simp add: example_defs db_defs api_defs run_defs)
qed

text \<open>
  The claim as the specification words it fails for a job that is already CANCELLED:
  cancelling it again succeeds.
\<close>

theorem cancel_job_cancelled_counterexample:
  "map status (jobs cancelled_db) = [CANCELLED] \<and>
   fst (cancel_job cancelled_db ''abc'' 5) = Inr ''Job cancelled successfully''"
  by (simp add: example_defs db_defs api_defs run_defs)

text \<open>
  C5: \<open>retry_job\<close> refuses a job whose status is not FAILED with status 400 and leaves
  the database as it is, so it succeeds only for a FAILED job; a FAILED job is reset to
  PENDING, and the task handed over carries the options recorded in the job's row. The
  call answers with the response and the task whenever the row's recorded options are
  valid.
\<close>

theorem retry_job_only_failed:
  assumes "get_job db jid = Some j"
  shows "(status j \<noteq> FAILED \<longrightarrow>
            retry_job db jid now =
              (Inl (HTTPException 400 ''Only failed jobs can be retried''), db)) \<and>
         (\<forall>x. fst (retry_job db jid now) = Inr x \<longrightarrow> status j = FAILED) \<and>
         (status j = FAILED \<longrightarrow>
            get_job (snd (retry_job db jid now)) jid =
              Some (j\<lparr>status := PENDING, updated_at := now\<rparr>) \<and>
            (case fst (retry_job db jid now) of
               Inl e \<Rightarrow> e = internal_server_error
             | Inr (r, tk) \<Rightarrow>
                 jr_status r = PENDING \<and> jr_job_id r = jid \<and> t_job_id tk = jid \<and>
                 t_model_size tk = model_size j \<and>
                 t_enable_diarization tk = enable_diarization j \<and>
                 t_enable_alignment tk = enable_alignment j \<and>
                 t_language tk = language j)) \<and>
         (status j = FAILED \<and> filename j \<noteq> None \<and> model_size j \<in> Some ` set ModelSize \<and>
          enable_diarization j \<noteq> None \<and> enable_alignment j \<noteq> None \<longrightarrow>
            (\<exists>r tk. fst (retry_job db jid now) = Inr (r, tk)))"
proof (intro conjI impI allI)
  assume "status j \<noteq> FAILED"
  with assms show "retry_job db jid now =
      (Inl (HTTPException 400 ''Only failed jobs can be retried''), db)"
    by (simp add: retry_job_def)
next
  fix x assume "fst (retry_job db jid now) = Inr x"
  with assms show "status j = FAILED"
    by (auto simp: retry_job_def split: if_splits)
next
  assume s: "status j = FAILED"
  from assms s have r: "snd (retry_job db jid now) = snd (update_job_status db jid PENDING None now)"
    by (simp add: retry_job_def Let_def split: sum.splits)
  from assms have "job_id j = jid"
    by (rule get_job_Some_id)
  then show "get_job (snd (retry_job db jid now)) jid =
      Some (j\<lparr>status := PENDING, updated_at := now\<rparr>)"
    using assms by (simp add: r get_job_update_job_status)
next
  assume s: "status j = FAILED"
  with assms show "case fst (retry_job db jid now) of
               Inl e \<Rightarrow> e = internal_server_error
             | Inr (r, tk) \<Rightarrow>
                 jr_status r = PENDING \<and> jr_job_id r = jid \<and> t_job_id tk = jid \<and>
                 t_model_size tk = model_size j \<and>
                 t_enable_diarization tk = enable_diarization j \<and>
                 t_enable_alignment tk = enable_alignment j \<and>
                 t_language tk = language j"
    by (auto simp: retry_job_def Let_def make_JobResponse_def
             split: sum.splits option.splits if_splits)
next
  assume "status j = FAILED \<and> filename j \<noteq> None \<and> model_size j \<in> Some ` set ModelSize \<and>
          enable_diarization j \<noteq> None \<and> enable_alignment j \<noteq> None"
  with assms show "\<exists>r tk. fst (retry_job db jid now) = Inr (r, tk)"
    by (auto simp: retry_job_def Let_def make_JobResponse_def)
qed

theorem retry_job_only_failed_witness:
  "map status (jobs failed_db) = [FAILED] \<and>
   map status (jobs (snd (retry_job failed_db ''abc'' 3))) = [PENDING] \<and>
   map_sum id (jr_status \<circ> fst) (fst (retry_job failed_db ''abc'' 3)) = Inr PENDING \<and>
   map status (jobs cancelled_db) = [CANCELLED] \<and>
   retry_job cancelled_db ''abc'' 3 =
     (Inl (HTTPException 400 ''Only failed jobs can be retried''), cancelled_db)"
proof -
  have c: "get_job cancelled_db ''abc'' = Some (hd (jobs cancelled_db))"
    by (simp add: example_defs db_defs api_defs run_defs)
  have f: "get_job failed_db ''abc'' = Some (hd (jobs failed_db))"
    by (simp add: example_defs db_defs api_defs run_defs)
  show ?thesis
    using retry_job_only_failed [OF c, of 3] retry_job_only_failed [OF f, of 3]
    by (simp add: example_defs db_defs api_defs run_defs)
qed

subsection \<open>What a reader is shown\<close>

lemma job_to_response_progress:
  assumes "job_to_response j = Inr r"
  shows "jr_job_id r = job_id j \<and> jr_status r = status j \<and>
         jr_progress r = (if status j = COMPLETED then 1 else 0) \<and>
         jr_current_stage r = Some (if status j = COMPLETED then STAGE_COMPLETED else UPLOAD)"
  using assms
  by (auto simp: job_to_response_def make_JobResponse_def split: option.splits if_splits)

lemma job_responses_each:
  assumes "job_responses js = Inr rs" and "r \<in> set rs"
  shows "\<exists>j \<in> set js. job_to_response j = Inr r"
  using assms
proof (induction js arbitrary: rs)
  case Nil
  then show ?case by simp
next
  case (Cons j js)
  from Cons.prems(1) obtain r0 rs0 where
    s: "job_to_response j = Inr r0" "job_responses js = Inr rs0" "rs = r0 # rs0"
    by (auto split: sum.splits)
  show ?case
  proof (cases "r = r0")
    case True
    with s(1) show ?thesis by simp
  next
    case False
    with Cons.prems(2) s(3) have "r \<in> set rs0" by simp
    from Cons.IH [OF s(2) this] show ?thesis by auto
  qed
qed

lemma set_get_jobs: "set (get_jobs db limit offset st) \<subseteq> set (jobs db)"
proof
  fix j assume a: "j \<in> set (get_jobs db limit offset st)"
  define rows where "rows = (case st of None \<Rightarrow> jobs db
      | Some v \<Rightarrow> filter (\<lambda>j. status j = v) (jobs db))"
  have r: "set rows \<subseteq> set (jobs db)"
    unfolding rows_def by (cases st) auto
  from a have "j \<in> set (drop (nat offset) (sort_key (\<lambda>j. - int (created_at j)) rows))"
    unfolding get_jobs_def Let_def rows_def
    by (auto split: if_splits dest: in_set_takeD)
  then have "j \<in> set (sort_key (\<lambda>j. - int (created_at j)) rows)"
    by (rule in_set_dropD)
  then have "j \<in> set rows"
    by simp
  with r show "j \<in> set (jobs db)"
    by blast
qed

text \<open>
  C9: a job returned by \<open>get_job\<close> or \<open>list_jobs\<close> shows the stored status of a stored
  job; its progress is 1 and its stage COMPLETED exactly when that status is COMPLETED,
  and progress 0 with stage UPLOAD for every other status.
\<close>

theorem progress_and_stage_two_valued:
  "(\<forall>r. get_job_endpoint db jid = Inr r \<longrightarrow>
      (\<exists>j. get_job db jid = Some j \<and> jr_status r = status j) \<and>
      (jr_status r = COMPLETED \<and> jr_progress r = 1 \<and> jr_current_stage r = Some STAGE_COMPLETED \<or>
       jr_status r \<noteq> COMPLETED \<and> jr_progress r = 0 \<and> jr_current_stage r = Some UPLOAD)) \<and>
   (\<forall>l. list_jobs db page per_page st = Inr l \<longrightarrow>
      (\<forall>r \<in> set (jl_jobs l).
         (\<exists>j \<in> set (jobs db). jr_job_id r = job_id j \<and> jr_status r = status j) \<and>
         (jr_status r = COMPLETED \<and> jr_progress r = 1 \<and> jr_current_stage r = Some STAGE_COMPLETED \<or>
          jr_status r \<noteq> COMPLETED \<and> jr_progress r = 0 \<and> jr_current_stage r = Some UPLOAD)))"
proof (intro conjI allI impI ballI)
  fix r assume a: "get_job_endpoint db jid = Inr r"
  then obtain j where j: "get_job db jid = Some j" "job_to_response j = Inr r"
    by (auto simp: get_job_endpoint_def split: option.splits)
  from job_to_response_progress [OF j(2)] j(1)
  show "\<exists>j. get_job db jid = Some j \<and> jr_status r = status j"
    by simp
  from job_to_response_progress [OF j(2)]
  show "jr_status r = COMPLETED \<and> jr_progress r = 1 \<and> jr_current_stage r = Some STAGE_COMPLETED \<or>
       jr_status r \<noteq> COMPLETED \<and> jr_progress r = 0 \<and> jr_current_stage r = Some UPLOAD"
    by auto
next
  fix l r assume a: "list_jobs db page per_page st = Inr l" and r: "r \<in> set (jl_jobs l)"
  from a have "job_responses (get_jobs db per_page ((page - 1) * per_page) st) = Inr (jl_jobs l)"
    by (auto simp: list_jobs_def Let_def split: if_splits sum.splits)
  from job_responses_each [OF this r]
  obtain j where j: "j \<in> set (get_jobs db per_page ((page - 1) * per_page) st)"
      "job_to_response j = Inr r"
    by blast
  from j(1) have m: "j \<in> set (jobs db)"
    using set_get_jobs by blast
  from job_to_response_progress [OF j(2)] m
  show "\<exists>j \<in> set (jobs db). jr_job_id r = job_id j \<and> jr_status r = status j"
    by auto
  from job_to_response_progress [OF j(2)]
  show "jr_status r = COMPLETED \<and> jr_progress r = 1 \<and> jr_current_stage r = Some STAGE_COMPLETED \<or>
       jr_status r \<noteq> COMPLETED \<and> jr_progress r = 0 \<and> jr_current_stage r = Some UPLOAD"
    by auto
qed


lemmas example2_defs = mock_word_def mock_result_def completed_db_def two_jobs_db_def

theorem progress_and_stage_two_valued_witness:
  "map_sum id jr_progress (get_job_endpoint completed_db ''abc'') = Inr 1 \<and>
   map_sum id jr_current_stage (get_job_endpoint completed_db ''abc'') = Inr (Some STAGE_COMPLETED) \<and>
   map_sum id jr_progress (get_job_endpoint pending_db ''abc'') = Inr 0 \<and>
   map_sum id jr_current_stage (get_job_endpoint pending_db ''abc'') = Inr (Some UPLOAD) \<and>
   map_sum id (map jr_status \<circ> jl_jobs) (list_jobs two_jobs_db 1 10 None) =
     Inr [PENDING, COMPLETED] \<and>
   map_sum id (map jr_progress \<circ> jl_jobs) (list_jobs two_jobs_db 1 10 None) = Inr [0, 1]"
proof -
  have c: "map_sum id jr_status (get_job_endpoint completed_db ''abc'') = Inr COMPLETED"
    by (simp add: example_defs example2_defs db_defs api_defs run_defs)
  have p: "map_sum id jr_status (get_job_endpoint pending_db ''abc'') = Inr PENDING"
    by (simp add: example_defs example2_defs db_defs api_defs run_defs)
  have l: "map_sum id (map jr_status \<circ> jl_jobs) (list_jobs two_jobs_db 1 10 None) =
     Inr [PENDING, COMPLETED]"
    by (simp add: example_defs example2_defs db_defs api_defs run_defs)
  from c obtain rc where rc: "get_job_endpoint completed_db ''abc'' = Inr rc" "jr_status rc = COMPLETED"
    by (cases "get_job_endpoint completed_db ''abc''") auto
  from p obtain rp where rp: "get_job_endpoint pending_db ''abc'' = Inr rp" "jr_status rp = PENDING"
    by (cases "get_job_endpoint pending_db ''abc''") auto
  from l obtain rl where rl: "list_jobs two_jobs_db 1 10 None = Inr rl"
      "map jr_status (jl_jobs rl) = [PENDING, COMPLETED]"
    by (cases "list_jobs two_jobs_db 1 10 None") auto
  from rl(2) obtain r1 r2 where rs: "jl_jobs rl = [r1, r2]" "jr_status r1 = PENDING"
      "jr_status r2 = COMPLETED"
    by auto
  from progress_and_stage_two_valued [of completed_db "''abc''" 1 10 None] rc
  have 1: "jr_progress rc = 1 \<and> jr_current_stage rc = Some STAGE_COMPLETED"
    by auto
  from progress_and_stage_two_valued [of pending_db "''abc''" 1 10 None] rp
  have 2: "jr_progress rp = 0 \<and> jr_current_stage rp = Some UPLOAD"
    by auto
  from progress_and_stage_two_valued [of two_jobs_db "''xyz''" 1 10 None] rl(1) rs
  have 3: "jr_progress r1 = 0 \<and> jr_progress r2 = 1"
    by auto
  from 1 2 3 rc rp rl rs show ?thesis
    by simp
qed

subsection \<open>\<open>save_job_result\<close>\<close>

lemma insert_speaker_segment_row:
  assumes "insert_speaker_segment jid db seg = Inr db'"
  shows "\<exists>row. db' = db\<lparr>speaker_segments := speaker_segments db @ [row]\<rparr> \<and>
           ss_job_id row = jid \<and>
           Some (ss_speaker row) = dict_get (sd_speaker seg) (Some ''UNKNOWN'')"
proof -
  obtain sp s e t where v:
    "dict_get (sd_speaker seg) (Some ''UNKNOWN'') = Some sp" "dict_get (sd_start seg) (Some 0) = Some s"
    "dict_get (sd_end seg) (Some 0) = Some e" "dict_get (sd_text seg) (Some []) = Some t"
    using assms unfolding insert_speaker_segment_def
    by (cases "dict_get (sd_speaker seg) (Some ''UNKNOWN'')"; cases "dict_get (sd_start seg) (Some 0)";
        cases "dict_get (sd_end seg) (Some 0)"; cases "dict_get (sd_text seg) (Some [])"; simp)
  define row where
    "row = \<lparr>ss_job_id = jid, ss_speaker = sp, ss_start_time = s, ss_end_time = e, ss_text = t\<rparr>"
  from assms v have "db' = db\<lparr>speaker_segments := speaker_segments db @ [row]\<rparr>"
    unfolding insert_speaker_segment_def row_def by simp
  moreover have "ss_job_id row = jid"
    by (simp add: row_def)
  moreover have "Some (ss_speaker row) = dict_get (sd_speaker seg) (Some ''UNKNOWN'')"
    using v(1) by (simp add: row_def)
  ultimately show ?thesis
    by blast
qed

lemma insert_word_segment_row:
  assumes "insert_word_segment jid db w = Inr db'"
  shows "\<exists>row. db' = db\<lparr>word_segments := word_segments db @ [row]\<rparr> \<and>
           ws_job_id row = jid \<and>
           ws_speaker row = dict_get (wd_speaker w) (Some ''UNKNOWN'')"
proof -
  obtain t s e where v:
    "dict_get (wd_word w) (Some []) = Some t" "dict_get (wd_start w) (Some 0) = Some s"
    "dict_get (wd_end w) (Some 0) = Some e"
    using assms unfolding insert_word_segment_def
    by (cases "dict_get (wd_word w) (Some [])"; cases "dict_get (wd_start w) (Some 0)";
        cases "dict_get (wd_end w) (Some 0)"; simp)
  define row where
    "row = \<lparr>ws_job_id = jid, ws_word = t, ws_start_time = s, ws_end_time = e,
        ws_speaker = dict_get (wd_speaker w) (Some ''UNKNOWN''),
        ws_confidence = dict_get (wd_confidence w) (Some (4 / 5))\<rparr>"
  from assms v have "db' = db\<lparr>word_segments := word_segments db @ [row]\<rparr>"
    unfolding insert_word_segment_def row_def by simp
  moreover have "ws_job_id row = jid"
    by (simp add: row_def)
  moreover have "ws_speaker row = dict_get (wd_speaker w) (Some ''UNKNOWN'')"
    by (simp add: row_def)
  ultimately show ?thesis
    by blast
qed

lemma for_each_insert_speaker_segment:
  assumes "for_each (insert_speaker_segment jid) segs db = Inr db'"
  shows "\<exists>rows. db' = db\<lparr>speaker_segments := speaker_segments db @ rows\<rparr> \<and>
           length rows = length segs \<and> (\<forall>x \<in> set rows. ss_job_id x = jid) \<and>
           map (Some \<circ> ss_speaker) rows =
             map (\<lambda>s. dict_get (sd_speaker s) (Some ''UNKNOWN'')) segs"
  using assms
proof (induction segs arbitrary: db)
  case Nil
  then show ?case by simp
next
  case (Cons seg segs)
  from Cons.prems obtain db1 where
    s: "insert_speaker_segment jid db seg = Inr db1"
       "for_each (insert_speaker_segment jid) segs db1 = Inr db'"
    by (auto split: sum.splits)
  from insert_speaker_segment_row [OF s(1)] obtain row where
    r: "db1 = db\<lparr>speaker_segments := speaker_segments db @ [row]\<rparr>" "ss_job_id row = jid"
       "Some (ss_speaker row) = dict_get (sd_speaker seg) (Some ''UNKNOWN'')"
    by blast
  from Cons.IH [OF s(2)] obtain rows where
    t: "db' = db1\<lparr>speaker_segments := speaker_segments db1 @ rows\<rparr>"
       "length rows = length segs" "\<forall>x \<in> set rows. ss_job_id x = jid"
       "map (Some \<circ> ss_speaker) rows = map (\<lambda>s. dict_get (sd_speaker s) (Some ''UNKNOWN'')) segs"
    by blast
  have "db' = db\<lparr>speaker_segments := speaker_segments db @ (row # rows)\<rparr>"
    using r(1) t(1) by simp
  moreover have "length (row # rows) = length (seg # segs)"
    using t(2) by simp
  moreover have "\<forall>x \<in> set (row # rows). ss_job_id x = jid"
    using r(2) t(3) by simp
  moreover have "map (Some \<circ> ss_speaker) (row # rows) =
      map (\<lambda>s. dict_get (sd_speaker s) (Some ''UNKNOWN'')) (seg # segs)"
    using r(3) t(4) by simp
  ultimately show ?case by blast
qed

lemma for_each_insert_word_segment:
  assumes "for_each (insert_word_segment jid) ws db = Inr db'"
  shows "\<exists>rows. db' = db\<lparr>word_segments := word_segments db @ rows\<rparr> \<and>
           length rows = length ws \<and> (\<forall>x \<in> set rows. ws_job_id x = jid) \<and>
           map ws_speaker rows = map (\<lambda>w. dict_get (wd_speaker w) (Some ''UNKNOWN'')) ws"
  using assms
proof (induction ws arbitrary: db)
  case Nil
  then show ?case by simp
next
  case (Cons w ws)
  from Cons.prems obtain db1 where
    s: "insert_word_segment jid db w = Inr db1"
       "for_each (insert_word_segment jid) ws db1 = Inr db'"
    by (auto split: sum.splits)
  from insert_word_segment_row [OF s(1)] obtain row where
    r: "db1 = db\<lparr>word_segments := word_segments db @ [row]\<rparr>" "ws_job_id row = jid"
       "ws_speaker row = dict_get (wd_speaker w) (Some ''UNKNOWN'')"
    by blast
  from Cons.IH [OF s(2)] obtain rows where
    t: "db' = db1\<lparr>word_segments := word_segments db1 @ rows\<rparr>"
       "length rows = length ws" "\<forall>x \<in> set rows. ws_job_id x = jid"
       "map ws_speaker rows = map (\<lambda>w. dict_get (wd_speaker w) (Some ''UNKNOWN'')) ws"
    by blast
  have "db' = db\<lparr>word_segments := word_segments db @ (row # rows)\<rparr>"
    using r(1) t(1) by simp
  moreover have "length (row # rows) = length (w # ws)"
    using t(2) by simp
  moreover have "\<forall>x \<in> set (row # rows). ws_job_id x = jid"
    using r(2) t(3) by simp
  moreover have "map ws_speaker (row # rows) =
      map (\<lambda>w. dict_get (wd_speaker w) (Some ''UNKNOWN'')) (w # ws)"
    using r(3) t(4) by simp
  ultimately show ?case by blast
qed

lemma save_speaker_segments_rows:
  assumes "save_speaker_segments jid r db = Inr db'"
  shows "\<exists>rows. db' = db\<lparr>speaker_segments := speaker_segments db @ rows\<rparr> \<and>
           length rows = length (segments_of r) \<and> (\<forall>x \<in> set rows. ss_job_id x = jid) \<and>
           map (Some \<circ> ss_speaker) rows =
             map (\<lambda>s. dict_get (sd_speaker s) (Some ''UNKNOWN'')) (segments_of r)"
proof (cases "rd_speaker_segments r")
  case Absent
  with assms have "db' = db"
    by (simp add: save_speaker_segments_def)
  with Absent show ?thesis
    by (simp add: segments_of_def)
next
  case PyNone
  with assms show ?thesis
    by (simp add: save_speaker_segments_def)
next
  case (Held segs)
  with assms have "for_each (insert_speaker_segment jid) segs db = Inr db'"
    by (simp add: save_speaker_segments_def)
  from for_each_insert_speaker_segment [OF this] Held show ?thesis
    by (simp add: segments_of_def)
qed

lemma save_word_segments_rows:
  assumes "save_word_segments jid r db = Inr db'"
  shows "\<exists>rows. db' = db\<lparr>word_segments := word_segments db @ rows\<rparr> \<and>
           length rows = length (words_of r) \<and> (\<forall>x \<in> set rows. ws_job_id x = jid) \<and>
           map ws_speaker rows = map (\<lambda>w. dict_get (wd_speaker w) (Some ''UNKNOWN'')) (words_of r)"
proof (cases "rd_word_segments r")
  case Absent
  with assms have "db' = db"
    by (simp add: save_word_segments_def)
  with Absent show ?thesis
    by (simp add: words_of_def)
next
  case PyNone
  with assms show ?thesis
    by (simp add: save_word_segments_def)
next
  case (Held ws)
  with assms have "for_each (insert_word_segment jid) ws db = Inr db'"
    by (simp add: save_word_segments_def)
  from for_each_insert_word_segment [OF this] Held show ?thesis
    by (simp add: words_of_def)
qed

lemma save_job_result_body_rows:
  assumes "save_job_result_body db jid r now = Inr db'"
  shows "\<exists>srows wrows.
           db' = \<lparr>jobs = jobs (update_main_job_record jid r now db),
                  speaker_segments = speaker_segments db @ srows,
                  word_segments = word_segments db @ wrows\<rparr> \<and>
           length srows = length (segments_of r) \<and> length wrows = length (words_of r) \<and>
           (\<forall>x \<in> set srows. ss_job_id x = jid) \<and> (\<forall>x \<in> set wrows. ws_job_id x = jid) \<and>
           map (Some \<circ> ss_speaker) srows =
             map (\<lambda>s. dict_get (sd_speaker s) (Some ''UNKNOWN'')) (segments_of r) \<and>
           map ws_speaker wrows =
             map (\<lambda>w. dict_get (wd_speaker w) (Some ''UNKNOWN'')) (words_of r)"
proof -
  from assms obtain db1 where
    s: "save_speaker_segments jid r (update_main_job_record jid r now db) = Inr db1"
       "save_word_segments jid r db1 = Inr db'"
    by (auto simp: save_job_result_body_def split: sum.splits)
  from save_speaker_segments_rows [OF s(1)] obtain srows where
    a: "db1 = (update_main_job_record jid r now db)
              \<lparr>speaker_segments := speaker_segments (update_main_job_record jid r now db) @ srows\<rparr>"
       "length srows = length (segments_of r)" "\<forall>x \<in> set srows. ss_job_id x = jid"
       "map (Some \<circ> ss_speaker) srows =
          map (\<lambda>s. dict_get (sd_speaker s) (Some ''UNKNOWN'')) (segments_of r)"
    by blast
  from save_word_segments_rows [OF s(2)] obtain wrows where
    b: "db' = db1\<lparr>word_segments := word_segments db1 @ wrows\<rparr>"
       "length wrows = length (words_of r)" "\<forall>x \<in> set wrows. ws_job_id x = jid"
       "map ws_speaker wrows = map (\<lambda>w. dict_get (wd_speaker w) (Some ''UNKNOWN'')) (words_of r)"
    by blast
  have "db' = \<lparr>jobs = jobs (update_main_job_record jid r now db),
                speaker_segments = speaker_segments db @ srows,
                word_segments = word_segments db @ wrows\<rparr>"
    using a(1) b(1) by (simp add: update_main_job_record_def)
  with a b show ?thesis by blast
qed

text \<open>
  C2: \<open>save_job_result\<close> either fails and leaves the database exactly as it was, or
  succeeds and commits everything together: every row of the job is COMPLETED and holds
  the result as its payload, one speaker-segment row per segment and one word-segment
  row per word of the result have been added for the job, and nothing else has changed.
  There is no third outcome, so no state after the call has new segment rows next to a
  job row that is not COMPLETED, or a COMPLETED job row written by the call without its
  payload.
\<close>

theorem save_job_result_atomic:
  "save_job_result db jid r now = (False, db) \<or>
   (\<exists>srows wrows.
      save_job_result db jid r now =
        (True, \<lparr>jobs = jobs (update_main_job_record jid r now db),
                speaker_segments = speaker_segments db @ srows,
                word_segments = word_segments db @ wrows\<rparr>) \<and>
      length srows = length (segments_of r) \<and> length wrows = length (words_of r) \<and>
      (\<forall>x \<in> set srows. ss_job_id x = jid) \<and> (\<forall>x \<in> set wrows. ws_job_id x = jid) \<and>
      length (jobs (update_main_job_record jid r now db)) = length (jobs db) \<and>
      (\<forall>i < length (jobs db).
         if job_id (jobs db ! i) = jid
         then status (jobs (update_main_job_record jid r now db) ! i) = COMPLETED \<and>
              result_data (jobs (update_main_job_record jid r now db) ! i) = Some r
         else jobs (update_main_job_record jid r now db) ! i = jobs db ! i))"
proof (cases "save_job_result_body db jid r now")
  case (Inl e)
  then show ?thesis
    by (simp add: save_job_result_def)
next
  case (Inr db')
  from save_job_result_body_rows [OF Inr] obtain srows wrows where
    a: "db' = \<lparr>jobs = jobs (update_main_job_record jid r now db),
                speaker_segments = speaker_segments db @ srows,
                word_segments = word_segments db @ wrows\<rparr>"
       "length srows = length (segments_of r)" "length wrows = length (words_of r)"
       "\<forall>x \<in> set srows. ss_job_id x = jid" "\<forall>x \<in> set wrows. ws_job_id x = jid"
    by blast
  have s: "save_job_result db jid r now = (True, db')"
    using Inr by (simp add: save_job_result_def)
  have l: "length (jobs (update_main_job_record jid r now db)) = length (jobs db)"
    by (simp add: update_main_job_record_def)
  have u: "\<forall>i < length (jobs db).
         if job_id (jobs db ! i) = jid
         then status (jobs (update_main_job_record jid r now db) ! i) = COMPLETED \<and>
              result_data (jobs (update_main_job_record jid r now db) ! i) = Some r
         else jobs (update_main_job_record jid r now db) ! i = jobs db ! i"
    by (simp add: update_main_job_record_def)
  from s a l u show ?thesis
    by blast
qed

theorem save_job_result_atomic_witness:
  "map status (jobs pending_db) = [PENDING] \<and>
   fst (save_job_result pending_db ''abc'' good_result 2) = True \<and>
   map status (jobs (snd (save_job_result pending_db ''abc'' good_result 2))) = [COMPLETED] \<and>
   map result_data (jobs (snd (save_job_result pending_db ''abc'' good_result 2))) =
     [Some good_result] \<and>
   length (speaker_segments (snd (save_job_result pending_db ''abc'' good_result 2))) =
     length (speaker_segments pending_db) + length (segments_of good_result) \<and>
   length (word_segments (snd (save_job_result pending_db ''abc'' good_result 2))) =
     length (word_segments pending_db) + length (words_of good_result) \<and>
   length (segments_of good_result) = 1 \<and> length (words_of good_result) = 2 \<and>
   save_job_result pending_db ''abc'' bad_result 2 = (False, pending_db)"
proof -
  have p: "map status (jobs pending_db) = [PENDING]"
    by (simp add: example_defs db_defs api_defs run_defs)
  have g: "fst (save_job_result pending_db ''abc'' good_result 2) = True"
    by (simp add: example_defs db_defs api_defs run_defs good_result_def good_segment_def)
  have s: "map status (jobs (snd (save_job_result pending_db ''abc'' good_result 2))) = [COMPLETED]"
    by (simp add: example_defs db_defs api_defs run_defs good_result_def good_segment_def)
  have r: "map result_data (jobs (snd (save_job_result pending_db ''abc'' good_result 2))) =
     [Some good_result]"
    by (simp add: example_defs db_defs api_defs run_defs good_result_def good_segment_def)
  have b: "fst (save_job_result pending_db ''abc'' bad_result 2) = False"
    by (simp add: example_defs db_defs api_defs run_defs good_result_def good_segment_def
        bad_result_def)
  have n: "length (segments_of good_result) = 1 \<and> length (words_of good_result) = 2"
    by (simp add: segments_of_def words_of_def good_result_def)
  from save_job_result_atomic [of pending_db "''abc''" bad_result 2] b
  have 1: "save_job_result pending_db ''abc'' bad_result 2 = (False, pending_db)"
    by (elim disjE exE conjE) simp_all
  from save_job_result_atomic [of pending_db "''abc''" good_result 2] g
  have 2: "length (speaker_segments (snd (save_job_result pending_db ''abc'' good_result 2))) =
       length (speaker_segments pending_db) + length (segments_of good_result) \<and>
     length (word_segments (snd (save_job_result pending_db ''abc'' good_result 2))) =
       length (word_segments pending_db) + length (words_of good_result)"
    by (elim disjE exE conjE) simp_all
  from p g s r n 1 2 show ?thesis
    by simp
qed

subsection \<open>A run that fails\<close>

lemma get_job_cong: "jobs db1 = jobs db2 \<Longrightarrow> get_job db1 k = get_job db2 k"
  by (simp add: get_job_def)

lemma get_job_update_main_job_record:
  "get_job (update_main_job_record jid r now db) k =
     map_option (\<lambda>j. if job_id j = jid then
          j\<lparr>status := COMPLETED,
            processing_time := dict_get (rd_processing_time r) None,
            audio_duration := dict_get (rd_duration r) None,
            language := dict_get (rd_language r) None,
            confidence := dict_get (rd_confidence r) None,
            result_data := Some r,
            updated_at := now\<rparr>
        else j) (get_job db k)"
  unfolding get_job_def update_main_job_record_def
  by (simp add: find_map_same_id)

lemma save_job_result_jobs:
  "jobs (snd (save_job_result db jid r now)) = jobs db \<or>
   jobs (snd (save_job_result db jid r now)) = jobs (update_main_job_record jid r now db)"
proof (cases "save_job_result_body db jid r now")
  case (Inl e)
  then show ?thesis
    by (simp add: save_job_result_def)
next
  case (Inr db')
  from save_job_result_body_rows [OF Inr] have "jobs db' = jobs (update_main_job_record jid r now db)"
    by auto
  with Inr show ?thesis
    by (simp add: save_job_result_def)
qed

lemma get_job_save_job_result:
  assumes "get_job db jid = Some j"
  shows "\<exists>j'. get_job (snd (save_job_result db jid r now)) jid = Some j' \<and>
           error_message j' = error_message j"
proof -
  from assms have i: "job_id j = jid"
    by (rule get_job_Some_id)
  from save_job_result_jobs [of db jid r now] show ?thesis
  proof
    assume "jobs (snd (save_job_result db jid r now)) = jobs db"
    then have "get_job (snd (save_job_result db jid r now)) jid = get_job db jid"
      by (rule get_job_cong)
    with assms show ?thesis by simp
  next
    assume "jobs (snd (save_job_result db jid r now)) = jobs (update_main_job_record jid r now db)"
    then have "get_job (snd (save_job_result db jid r now)) jid =
        get_job (update_main_job_record jid r now db) jid"
      by (rule get_job_cong)
    with assms i show ?thesis
      by (simp add: get_job_update_main_job_record)
  qed
qed

lemma get_job_mark_failed:
  assumes "get_job db jid = Some j"
  shows "\<exists>j'. get_job (mark_failed db jid e now) jid = Some j' \<and> status j' = FAILED \<and>
           error_message j' = (if str e \<noteq> [] then Some (str e) else error_message j)"
proof -
  from assms have "job_id j = jid"
    by (rule get_job_Some_id)
  with assms show ?thesis
    by (simp add: mark_failed_def get_job_update_job_status)
qed

lemma get_job_process_audio_job_begin:
  assumes "get_job db jid = Some j"
  shows "get_job (process_audio_job_begin db jid now) jid =
           Some (j\<lparr>status := PROCESSING, updated_at := now\<rparr>)"
proof -
  from assms have "job_id j = jid"
    by (rule get_job_Some_id)
  with assms show ?thesis
    by (simp add: process_audio_job_begin_def get_job_update_job_status)
qed

text \<open>Every exception that the conversion of the engine's answer raises has a description.\<close>

lemma for_each_process_segment_error:
  "for_each process_segment segs acc = Inl e \<Longrightarrow> e = not_iterable"
proof (induction segs arbitrary: acc)
  case Nil
  then show ?case by simp
next
  case (Cons seg segs)
  show ?case
  proof (cases "dict_get (es_words seg) (Some [])")
    case None
    with Cons.prems show ?thesis
      by (simp add: process_segment_def)
  next
    case (Some ws)
    then have "process_segment acc seg =
        Inr (fst acc @ [speaker_segment seg], snd acc @ map word_segment ws)"
      by (simp add: process_segment_def)
    with Cons.prems have "for_each process_segment segs
        (fst acc @ [speaker_segment seg], snd acc @ map word_segment ws) = Inl e"
      by simp
    then show ?thesis
      by (rule Cons.IH)
  qed
qed

lemma max_from_error: "max_from m xs = Inl e \<Longrightarrow> str e \<noteq> []"
proof (induction xs arbitrary: m)
  case Nil
  then show ?case by simp
next
  case (Cons x xs)
  show ?case
  proof (cases x)
    case None
    with Cons.prems show ?thesis by auto
  next
    case (Some a)
    show ?thesis
    proof (cases m)
      case None
      with Some Cons.prems show ?thesis by auto
    next
      case (Some b)
      with \<open>x = Some a\<close> Cons.prems
      have "max_from x xs = Inl e \<or> max_from m xs = Inl e"
        by (cases "a > b") simp_all
      then show ?thesis
        using Cons.IH by blast
    qed
  qed
qed

lemma py_max_error: "py_max xs = Inl e \<Longrightarrow> str e \<noteq> []"
  by (cases xs) (auto dest: max_from_error)

lemma convert_result_error:
  assumes "convert_result res elapsed = Inl e"
  shows "str e \<noteq> []"
proof (cases "dict_get (er_segments res) (Some [])")
  case None
  with assms have "e = not_iterable"
    by (simp add: convert_result_def)
  then show ?thesis
    by (simp add: not_iterable_def)
next
  case (Some segments)
  note s = this
  show ?thesis
  proof (cases "str_join '' '' (map (\<lambda>seg. dict_get (es_text seg) (Some [])) segments)")
    case (Inl e1)
    with s assms have "e = e1"
      by (simp add: convert_result_def)
    with Inl show ?thesis
      by (auto simp: str_join_def split: if_splits)
  next
    case (Inr full_text)
    note t = this
    show ?thesis
    proof (cases "for_each process_segment segments ([], [])")
      case (Inl e1)
      with s t assms have "e = e1"
        by (simp add: convert_result_def)
      with for_each_process_segment_error [OF Inl] show ?thesis
        by (simp add: not_iterable_def)
    next
      case (Inr acc)
      with s t assms have "py_max (map (\<lambda>seg. dict_get (es_end seg) (Some 0)) segments) = Inl e"
        by (cases acc; cases "segments = []") (simp_all add: convert_result_def split: sum.splits)
      then show ?thesis
        by (rule py_max_error)
    qed
  qed
qed

text \<open>
  C3, as the code has it. For a job that exists, a background run whose engine call
  raises leaves the job FAILED; its \<open>error_message\<close> is the description of the cause
  when that description is not empty, and when the description is empty nothing is
  written: \<open>error_message\<close> is what it was before the run. A run in which the
  conversion of the engine's answer raises leaves the job FAILED with the description
  of that exception. So no exception raised by the engine call or by the conversion
  leaves the job PROCESSING.
\<close>

theorem process_audio_job_failure_recorded:
  assumes "get_job db (t_job_id tk) = Some j"
  shows "(\<forall>e. \<exists>j'. get_job (process_audio_job db tk (Inl e) started now elapsed) (t_job_id tk) = Some j' \<and>
            status j' = FAILED \<and>
            error_message j' = (if str e \<noteq> [] then Some (str e) else error_message j)) \<and>
         (\<forall>res e. convert_result res elapsed = Inl e \<longrightarrow>
            (\<exists>j'. get_job (process_audio_job db tk (Inr res) started now elapsed) (t_job_id tk) = Some j' \<and>
               status j' = FAILED \<and> error_message j' = Some (str e)))"
proof (intro conjI allI impI)
  fix e
  from get_job_process_audio_job_begin [OF assms]
  have "get_job (process_audio_job_begin db (t_job_id tk) started) (t_job_id tk) =
      Some (j\<lparr>status := PROCESSING, updated_at := started\<rparr>)" .
  from get_job_save_job_result [OF this] obtain j1 where
    j1: "get_job (snd (save_job_result (process_audio_job_begin db (t_job_id tk) started) (t_job_id tk)
        (partial_result (t_language tk) elapsed e) now)) (t_job_id tk) = Some j1"
      "error_message j1 = error_message j"
    by auto
  from get_job_mark_failed [OF j1(1), of e now] j1(2)
  show "\<exists>j'. get_job (process_audio_job db tk (Inl e) started now elapsed) (t_job_id tk) = Some j' \<and>
            status j' = FAILED \<and>
            error_message j' = (if str e \<noteq> [] then Some (str e) else error_message j)"
    by (auto simp: process_audio_job_def process_audio_job_resume_def)
next
  fix res e assume c: "convert_result res elapsed = Inl e"
  from get_job_process_audio_job_begin [OF assms]
  have "get_job (process_audio_job_begin db (t_job_id tk) started) (t_job_id tk) =
      Some (j\<lparr>status := PROCESSING, updated_at := started\<rparr>)" .
  from get_job_mark_failed [OF this, of e now] convert_result_error [OF c] c
  show "\<exists>j'. get_job (process_audio_job db tk (Inr res) started now elapsed) (t_job_id tk) = Some j' \<and>
               status j' = FAILED \<and> error_message j' = Some (str e)"
    by (auto simp: process_audio_job_def process_audio_job_resume_def)
qed

theorem process_audio_job_failure_recorded_witness:
  "(\<exists>j'. get_job (process_audio_job pending_db example_task decode_error 1 2 1) ''abc'' = Some j' \<and>
      status j' = FAILED \<and> error_message j' = Some ''decode error'') \<and>
   (\<exists>j'. get_job (process_audio_job retried_db example_task silent_error 4 5 1) ''abc'' = Some j' \<and>
      status j' = FAILED \<and> error_message j' = Some ''decode error'') \<and>
   (\<exists>j'. get_job (process_audio_job pending_db example_task silent_error 1 2 1) ''abc'' = Some j' \<and>
      status j' = FAILED \<and> error_message j' = None) \<and>
   convert_result null_segments 1 = Inl not_iterable \<and>
   (\<exists>j'. get_job (process_audio_job pending_db example_task (Inr null_segments) 1 2 1) ''abc'' = Some j' \<and>
      status j' = FAILED \<and> error_message j' = Some ''NoneType object is not iterable'')"
proof -
  have h: "get_job pending_db (t_job_id example_task) = Some (hd (jobs pending_db))"
    by (simp add: example_defs example_task_def db_defs api_defs run_defs)
  have hm: "error_message (hd (jobs pending_db)) = None"
    by (simp add: example_defs db_defs api_defs run_defs)
  have r: "get_job retried_db (t_job_id example_task) = Some (hd (jobs retried_db))"
    by (simp add: retried_db_def example_defs example_task_def db_defs api_defs run_defs)
  have rm: "error_message (hd (jobs retried_db)) = Some ''decode error''"
    by (simp add: retried_db_def example_defs db_defs api_defs run_defs)
  have c: "convert_result null_segments 1 = Inl not_iterable"
    by (simp add: convert_result_def null_segments_def)
  note t = process_audio_job_failure_recorded [OF h, of 1 2 1]
  note u = process_audio_job_failure_recorded [OF r, of 4 5 1]
  from t have "\<exists>j'. get_job (process_audio_job pending_db example_task
        (Inl (Exception ''decode error'')) 1 2 1) (t_job_id example_task) = Some j' \<and>
      status j' = FAILED \<and>
      error_message j' = (if str (Exception ''decode error'') \<noteq> []
         then Some (str (Exception ''decode error'')) else error_message (hd (jobs pending_db)))"
    by blast
  then have 1: "\<exists>j'. get_job (process_audio_job pending_db example_task decode_error 1 2 1) ''abc'' = Some j' \<and>
      status j' = FAILED \<and> error_message j' = Some ''decode error''"
    by (simp add: decode_error_def example_task_def)
  from u have "\<exists>j'. get_job (process_audio_job retried_db example_task
        (Inl (Exception [])) 4 5 1) (t_job_id example_task) = Some j' \<and>
      status j' = FAILED \<and>
      error_message j' = (if str (Exception []) \<noteq> []
         then Some (str (Exception [])) else error_message (hd (jobs retried_db)))"
    by blast
  with rm have 2: "\<exists>j'. get_job (process_audio_job retried_db example_task silent_error 4 5 1) ''abc'' = Some j' \<and>
      status j' = FAILED \<and> error_message j' = Some ''decode error''"
    by (simp add: silent_error_def example_task_def)
  from t have "\<exists>j'. get_job (process_audio_job pending_db example_task
        (Inl (Exception [])) 1 2 1) (t_job_id example_task) = Some j' \<and>
      status j' = FAILED \<and>
      error_message j' = (if str (Exception []) \<noteq> []
         then Some (str (Exception [])) else error_message (hd (jobs pending_db)))"
    by blast
  with hm have 3: "\<exists>j'. get_job (process_audio_job pending_db example_task silent_error 1 2 1) ''abc'' = Some j' \<and>
      status j' = FAILED \<and> error_message j' = None"
    by (simp add: silent_error_def example_task_def)
  from t c have "\<exists>j'. get_job (process_audio_job pending_db example_task (Inr null_segments) 1 2 1)
        (t_job_id example_task) = Some j' \<and>
      status j' = FAILED \<and> error_message j' = Some (str not_iterable)"
    by blast
  then have 4: "\<exists>j'. get_job (process_audio_job pending_db example_task (Inr null_segments) 1 2 1) ''abc'' = Some j' \<and>
      status j' = FAILED \<and> error_message j' = Some ''NoneType object is not iterable''"
    by (simp add: not_iterable_def example_task_def)
  from 1 2 3 c 4 show ?thesis
    by blast
qed

text \<open>
  The claim as the specification words it fails when the cause has an empty
  description: the job is FAILED, but \<open>error_message\<close> is not that description; it stays
  unset on a first failure, and after a retry it is still the message of the earlier
  failure.
\<close>

theorem process_audio_job_empty_description_counterexample:
  "map status (jobs (process_audio_job pending_db example_task silent_error 1 2 1)) = [FAILED] \<and>
   map error_message (jobs (process_audio_job pending_db example_task silent_error 1 2 1)) = [None] \<and>
   (case retry_job failed_db ''abc'' 3 of
      (Inr (r, tk), db) \<Rightarrow> map error_message (jobs (process_audio_job db tk silent_error 4 5 1))
    | (Inl e, db) \<Rightarrow> []) = [Some ''decode error'']"
  by (simp add: example_defs example_task_def silent_error_def db_defs api_defs run_defs)

subsection \<open>Speaker labels\<close>

lemma dict_get_dict_item: "dict_get (dict_item x) d = x"
  by (cases x) simp_all

lemma for_each_process_segment_result:
  assumes "for_each process_segment segs acc = Inr acc'"
  shows "acc' = (fst acc @ map speaker_segment segs,
                 snd acc @ concat (map (\<lambda>s. map word_segment (engine_words s)) segs))"
  using assms
proof (induction segs arbitrary: acc)
  case Nil
  then show ?case by simp
next
  case (Cons seg segs)
  show ?case
  proof (cases "es_words seg")
    case Absent
    then have "process_segment acc seg = Inr (fst acc @ [speaker_segment seg], snd acc)"
      by (simp add: process_segment_def)
    with Cons.prems have "for_each process_segment segs (fst acc @ [speaker_segment seg], snd acc) = Inr acc'"
      by simp
    from Cons.IH [OF this] Absent show ?thesis
      by (simp add: engine_words_def)
  next
    case PyNone
    then have "process_segment acc seg = Inl not_iterable"
      by (simp add: process_segment_def)
    with Cons.prems show ?thesis
      by simp
  next
    case (Held ws)
    then have "process_segment acc seg =
        Inr (fst acc @ [speaker_segment seg], snd acc @ map word_segment ws)"
      by (simp add: process_segment_def)
    with Cons.prems have "for_each process_segment segs
        (fst acc @ [speaker_segment seg], snd acc @ map word_segment ws) = Inr acc'"
      by simp
    from Cons.IH [OF this] Held show ?thesis
      by (simp add: engine_words_def)
  qed
qed

lemma convert_result_segments:
  assumes "convert_result res elapsed = Inr rd"
  shows "\<exists>segs. dict_get (er_segments res) (Some []) = Some segs \<and>
           rd_speaker_segments rd = Held (map speaker_segment segs) \<and>
           rd_word_segments rd =
             Held (concat (map (\<lambda>s. map word_segment (engine_words s)) segs))"
proof (cases "dict_get (er_segments res) (Some [])")
  case None
  with assms show ?thesis
    by (simp add: convert_result_def)
next
  case (Some segs)
  note s = this
  show ?thesis
  proof (cases "str_join '' '' (map (\<lambda>seg. dict_get (es_text seg) (Some [])) segs)")
    case (Inl e)
    with s assms show ?thesis
      by (simp add: convert_result_def)
  next
    case (Inr full_text)
    note t = this
    show ?thesis
    proof (cases "for_each process_segment segs ([], [])")
      case (Inl e)
      with s t assms show ?thesis
        by (simp add: convert_result_def)
    next
      case (Inr acc)
      from for_each_process_segment_result [OF Inr]
      have a: "acc = (map speaker_segment segs,
                      concat (map (\<lambda>s. map word_segment (engine_words s)) segs))"
        by simp
      show ?thesis
      proof (cases "if segs \<noteq> []
            then py_max (map (\<lambda>seg. dict_get (es_end seg) (Some 0)) segs)
            else Inr (Some 0)")
        case (Inl e)
        with s t Inr a assms show ?thesis
          by (simp add: convert_result_def)
      next
        case (Inr duration)
        with s t \<open>for_each process_segment segs ([], []) = Inr acc\<close> a assms
        have "rd_speaker_segments rd = Held (map speaker_segment segs) \<and>
           rd_word_segments rd =
             Held (concat (map (\<lambda>s. map word_segment (engine_words s)) segs))"
          by (auto simp: convert_result_def)
        with s show ?thesis
          by simp
      qed
    qed
  qed
qed

text \<open>
  C8, as the code has it. When the engine's answer is converted and saved (the job
  completes), the rows added to the two segment tables are, in order, those of the
  answer's segments and of their words. The speaker of a segment row is the segment's
  label, and "UNKNOWN" when the segment has no \<open>speaker\<close> key; it is never null. The
  speaker of a word row is the word's label, "UNKNOWN" when the word has no \<open>speaker\<close>
  key, and null exactly when the key holds \<open>None\<close>.
\<close>

theorem persisted_speakers:
  assumes "convert_result res elapsed = Inr rd"
    and "fst (save_job_result db jid rd now)"
  shows "\<exists>segs srows wrows.
           dict_get (er_segments res) (Some []) = Some segs \<and>
           speaker_segments (process_audio_job_resume db jid lang (Inr res) now elapsed) =
             speaker_segments db @ srows \<and>
           word_segments (process_audio_job_resume db jid lang (Inr res) now elapsed) =
             word_segments db @ wrows \<and>
           length srows = length segs \<and>
           length wrows = length (concat (map engine_words segs)) \<and>
           (\<forall>i < length segs.
              (es_speaker (segs ! i) = Absent \<longrightarrow> ss_speaker (srows ! i) = ''UNKNOWN'') \<and>
              (\<forall>s. es_speaker (segs ! i) = Held s \<longrightarrow> ss_speaker (srows ! i) = s) \<and>
              es_speaker (segs ! i) \<noteq> PyNone) \<and>
           (\<forall>i < length (concat (map engine_words segs)).
              (ew_speaker (concat (map engine_words segs) ! i) = Absent \<longrightarrow>
                 ws_speaker (wrows ! i) = Some ''UNKNOWN'') \<and>
              (\<forall>s. ew_speaker (concat (map engine_words segs) ! i) = Held s \<longrightarrow>
                 ws_speaker (wrows ! i) = Some s) \<and>
              (ws_speaker (wrows ! i) = None \<longleftrightarrow>
                 ew_speaker (concat (map engine_words segs) ! i) = PyNone))"
proof -
  from convert_result_segments [OF assms(1)] obtain segs where
    c: "dict_get (er_segments res) (Some []) = Some segs"
       "rd_speaker_segments rd = Held (map speaker_segment segs)"
       "rd_word_segments rd = Held (concat (map (\<lambda>s. map word_segment (engine_words s)) segs))"
    by blast
  define ws where "ws = concat (map engine_words segs)"
  have w: "concat (map (\<lambda>s. map word_segment (engine_words s)) segs) = map word_segment ws"
    unfolding ws_def by (induction segs) simp_all
  from assms(2) obtain db' where b: "save_job_result_body db jid rd now = Inr db'"
    by (cases "save_job_result_body db jid rd now") (simp_all add: save_job_result_def)
  then have r: "process_audio_job_resume db jid lang (Inr res) now elapsed = db'"
    using assms(1) by (simp add: process_audio_job_resume_def save_job_result_def)
  from save_job_result_body_rows [OF b] obtain srows wrows where
    k: "db' = \<lparr>jobs = jobs (update_main_job_record jid rd now db),
                speaker_segments = speaker_segments db @ srows,
                word_segments = word_segments db @ wrows\<rparr>"
       "length srows = length (segments_of rd)" "length wrows = length (words_of rd)"
       "map (Some \<circ> ss_speaker) srows =
          map (\<lambda>s. dict_get (sd_speaker s) (Some ''UNKNOWN'')) (segments_of rd)"
       "map ws_speaker wrows =
          map (\<lambda>w. dict_get (wd_speaker w) (Some ''UNKNOWN'')) (words_of rd)"
    by blast
  have sg: "segments_of rd = map speaker_segment segs"
    using c(2) by (simp add: segments_of_def)
  have wd: "words_of rd = map word_segment ws"
    using c(3) w by (simp add: words_of_def)
  have ls: "length srows = length segs"
    using k(2) sg by simp
  have lw: "length wrows = length ws"
    using k(3) wd by simp
  have ms: "map (Some \<circ> ss_speaker) srows =
      map (\<lambda>s. dict_get (es_speaker s) (Some ''UNKNOWN'')) segs"
    using k(4) sg by (simp add: speaker_segment_def dict_get_dict_item comp_def)
  have mw: "map ws_speaker wrows = map (\<lambda>w. dict_get (ew_speaker w) (Some ''UNKNOWN'')) ws"
    using k(5) wd by (simp add: word_segment_def dict_get_dict_item comp_def)
  have ps: "\<forall>i < length segs.
      (es_speaker (segs ! i) = Absent \<longrightarrow> ss_speaker (srows ! i) = ''UNKNOWN'') \<and>
      (\<forall>s. es_speaker (segs ! i) = Held s \<longrightarrow> ss_speaker (srows ! i) = s) \<and>
      es_speaker (segs ! i) \<noteq> PyNone"
  proof (intro allI impI)
    fix i assume i: "i < length segs"
    from ms have "map (Some \<circ> ss_speaker) srows ! i =
        map (\<lambda>s. dict_get (es_speaker s) (Some ''UNKNOWN'')) segs ! i"
      by simp
    with i ls have "Some (ss_speaker (srows ! i)) = dict_get (es_speaker (segs ! i)) (Some ''UNKNOWN'')"
      by simp
    then show "(es_speaker (segs ! i) = Absent \<longrightarrow> ss_speaker (srows ! i) = ''UNKNOWN'') \<and>
      (\<forall>s. es_speaker (segs ! i) = Held s \<longrightarrow> ss_speaker (srows ! i) = s) \<and>
      es_speaker (segs ! i) \<noteq> PyNone"
      by (cases "es_speaker (segs ! i)") simp_all
  qed
  have pw: "\<forall>i < length ws.
      (ew_speaker (ws ! i) = Absent \<longrightarrow> ws_speaker (wrows ! i) = Some ''UNKNOWN'') \<and>
      (\<forall>s. ew_speaker (ws ! i) = Held s \<longrightarrow> ws_speaker (wrows ! i) = Some s) \<and>
      (ws_speaker (wrows ! i) = None \<longleftrightarrow> ew_speaker (ws ! i) = PyNone)"
  proof (intro allI impI)
    fix i assume i: "i < length ws"
    from mw have "map ws_speaker wrows ! i =
        map (\<lambda>w. dict_get (ew_speaker w) (Some ''UNKNOWN'')) ws ! i"
      by simp
    with i lw have "ws_speaker (wrows ! i) = dict_get (ew_speaker (ws ! i)) (Some ''UNKNOWN'')"
      by simp
    then show "(ew_speaker (ws ! i) = Absent \<longrightarrow> ws_speaker (wrows ! i) = Some ''UNKNOWN'') \<and>
      (\<forall>s. ew_speaker (ws ! i) = Held s \<longrightarrow> ws_speaker (wrows ! i) = Some s) \<and>
      (ws_speaker (wrows ! i) = None \<longleftrightarrow> ew_speaker (ws ! i) = PyNone)"
      by (cases "ew_speaker (ws ! i)") simp_all
  qed
  from c(1) r k(1) ls lw ps pw show ?thesis
    unfolding ws_def by (intro exI [of _ segs] exI [of _ srows] exI [of _ wrows]) simp
qed

theorem persisted_speakers_witness:
  "ss_speaker (speaker_segments
      (process_audio_job_resume pending_db ''abc'' None (Inr partly_labelled) 2 1) ! 0) = ''UNKNOWN'' \<and>
   ss_speaker (speaker_segments
      (process_audio_job_resume pending_db ''abc'' None (Inr partly_labelled) 2 1) ! 1) = ''SPEAKER_01'' \<and>
   ws_speaker (word_segments
      (process_audio_job_resume pending_db ''abc'' None (Inr partly_labelled) 2 1) ! 0) = Some ''UNKNOWN'' \<and>
   ws_speaker (word_segments
      (process_audio_job_resume pending_db ''abc'' None (Inr partly_labelled) 2 1) ! 1) = Some ''SPEAKER_01'' \<and>
   map status (jobs (process_audio_job_resume pending_db ''abc'' None (Inr partly_labelled) 2 1)) =
     [COMPLETED]"
proof -
  have "\<exists>rd. convert_result partly_labelled 1 = Inr rd \<and> fst (save_job_result pending_db ''abc'' rd 2)"
    by (simp add: partly_labelled_def unlabelled_word_def labelled_word_def example_defs
        db_defs api_defs run_defs)
  then obtain rd where rd: "convert_result partly_labelled 1 = Inr rd"
      "fst (save_job_result pending_db ''abc'' rd 2)"
    by blast
  have st: "map status (jobs (process_audio_job_resume pending_db ''abc'' None (Inr partly_labelled) 2 1)) =
     [COMPLETED]"
    by (simp add: partly_labelled_def unlabelled_word_def labelled_word_def example_defs
        db_defs api_defs run_defs)
  have emp: "speaker_segments pending_db = [] \<and> word_segments pending_db = []"
    by (simp add: example_defs db_defs api_defs run_defs)
  from persisted_speakers [OF rd, of None] obtain segs srows wrows where
    f: "dict_get (er_segments partly_labelled) (Some []) = Some segs"
       "speaker_segments (process_audio_job_resume pending_db ''abc'' None (Inr partly_labelled) 2 1) =
          speaker_segments pending_db @ srows"
       "word_segments (process_audio_job_resume pending_db ''abc'' None (Inr partly_labelled) 2 1) =
          word_segments pending_db @ wrows"
       "\<forall>i < length segs.
          (es_speaker (segs ! i) = Absent \<longrightarrow> ss_speaker (srows ! i) = ''UNKNOWN'') \<and>
          (\<forall>s. es_speaker (segs ! i) = Held s \<longrightarrow> ss_speaker (srows ! i) = s) \<and>
          es_speaker (segs ! i) \<noteq> PyNone"
       "\<forall>i < length (concat (map engine_words segs)).
          (ew_speaker (concat (map engine_words segs) ! i) = Absent \<longrightarrow>
             ws_speaker (wrows ! i) = Some ''UNKNOWN'') \<and>
          (\<forall>s. ew_speaker (concat (map engine_words segs) ! i) = Held s \<longrightarrow>
             ws_speaker (wrows ! i) = Some s) \<and>
          (ws_speaker (wrows ! i) = None \<longleftrightarrow>
             ew_speaker (concat (map engine_words segs) ! i) = PyNone)"
    by blast
  from f(1) have sg: "length segs = 2 \<and> es_speaker (segs ! 0) = Absent \<and>
      es_speaker (segs ! 1) = Held ''SPEAKER_01''"
    by (auto simp: partly_labelled_def)
  from f(1) have ws: "concat (map engine_words segs) = [unlabelled_word, labelled_word]"
    by (auto simp: partly_labelled_def engine_words_def)
  from f(4) sg have 1: "ss_speaker (srows ! 0) = ''UNKNOWN'' \<and> ss_speaker (srows ! 1) = ''SPEAKER_01''"
    by simp
  from f(5) ws have a: "\<forall>i < 2. (ew_speaker ([unlabelled_word, labelled_word] ! i) = Absent \<longrightarrow>
             ws_speaker (wrows ! i) = Some ''UNKNOWN'') \<and>
          (\<forall>s. ew_speaker ([unlabelled_word, labelled_word] ! i) = Held s \<longrightarrow>
             ws_speaker (wrows ! i) = Some s)"
    by simp
  from a [rule_format, of 0] a [rule_format, of 1]
  have 2: "ws_speaker (wrows ! 0) = Some ''UNKNOWN'' \<and> ws_speaker (wrows ! 1) = Some ''SPEAKER_01''"
    by (simp add: unlabelled_word_def labelled_word_def)
  from 1 2 f(2,3) emp st show ?thesis
    by simp
qed

text \<open>
  The claim as the specification words it fails for an engine answer in which the key
  \<open>speaker\<close> of a word holds \<open>None\<close>: the job completes and the word's row has a null
  speaker.
\<close>

theorem null_speaker_persisted_counterexample:
  "map status (jobs (process_audio_job pending_db example_task (Inr null_speaker_word) 1 2 1)) =
     [COMPLETED] \<and>
   map ws_speaker (word_segments
     (process_audio_job pending_db example_task (Inr null_speaker_word) 1 2 1)) = [None]"
  by (simp add: null_speaker_word_def unlabelled_word_def example_defs example_task_def
      db_defs api_defs run_defs)

subsection \<open>The total of a listing\<close>

lemma run_snoc: "run (evs @ [ev]) = step (run evs) ev"
  by (simp add: run_def)

lemma length_get_jobs_1000:
  "length (get_jobs db 1000 0 st) = min 1000 (length (matching db st))"
  by (cases st) (simp_all add: get_jobs_def matching_def)

lemma list_jobs_total:
  assumes "list_jobs db page per_page st = Inr l"
  shows "jl_total l = min 1000 (length (matching db st))"
proof -
  from assms have "jl_total l = length (get_jobs db 1000 0 st)"
    by (auto simp: list_jobs_def Let_def split: if_splits sum.splits)
  then show ?thesis
    by (simp add: length_get_jobs_1000)
qed

lemma job_responses_all:
  assumes "\<forall>j \<in> set js. \<exists>r. job_to_response j = Inr r"
  shows "\<exists>rs. job_responses js = Inr rs \<and> length rs = length js"
  using assms
proof (induction js)
  case Nil
  then show ?case by simp
next
  case (Cons j js)
  then obtain r rs where "job_to_response j = Inr r" "job_responses js = Inr rs"
      "length rs = length js"
    by auto
  then show ?case by simp
qed

lemma snd_upload_and_process:
  "snd (upload_and_process db jid path fname msize diar align lang now) =
   snd (create_job db
         \<lparr>jd_job_id = jid, jd_filename = fname, jd_model_size = Held msize,
          jd_enable_diarization = Held diar, jd_enable_alignment = Held align,
          jd_language = Absent\<rparr> now)"
  unfolding upload_and_process_def
  by (cases "create_job db
         \<lparr>jd_job_id = jid, jd_filename = fname, jd_model_size = Held msize,
          jd_enable_diarization = Held diar, jd_enable_alignment = Held align,
          jd_language = Absent\<rparr> now")
     (auto split: sum.splits bool.splits)

lemma bulk_db_jobs:
  "map job_id (jobs (bulk_db n)) = map (\<lambda>i. replicate (Suc i) CHR ''j'') [0..<n] \<and>
   (\<forall>j \<in> set (jobs (bulk_db n)). \<exists>r. job_to_response j = Inr r)"
proof (induction n)
  case 0
  show ?case
    by (simp add: bulk_db_def run_def empty_database_def)
next
  case (Suc n)
  have s: "bulk_db (Suc n) = step (bulk_db n) (bulk_upload n)"
    by (simp add: bulk_db_def run_snoc)
  have fresh: "\<not> (\<exists>j \<in> set (jobs (bulk_db n)). job_id j = replicate (Suc n) CHR ''j'')"
  proof
    assume "\<exists>j \<in> set (jobs (bulk_db n)). job_id j = replicate (Suc n) CHR ''j''"
    then have "replicate (Suc n) CHR ''j'' \<in> set (map job_id (jobs (bulk_db n)))"
      by force
    with Suc.IH have "replicate (Suc n) CHR ''j'' \<in> (\<lambda>i. replicate (Suc i) CHR ''j'') ` {0..<n}"
      by simp
    then obtain i where "i < n" "replicate (Suc n) CHR ''j'' = replicate (Suc i) CHR ''j''"
      by auto
    then have "length (replicate (Suc n) CHR ''j'') = length (replicate (Suc i) CHR ''j'')"
      by simp
    with \<open>i < n\<close> show False
      by simp
  qed
  define row where "row =
      \<lparr>job_id = replicate (Suc n) CHR ''j'', status = PENDING, created_at = n, updated_at = n,
       filename = Some ''a.wav'', model_size = Some ''base'', enable_diarization = Some True,
       enable_alignment = Some True, language = None, processing_time = None,
       audio_duration = None, confidence = None, error_message = None, result_data = None\<rparr>"
  from fresh have j: "jobs (bulk_db (Suc n)) = jobs (bulk_db n) @ [row]"
    unfolding s bulk_upload_def row_def
    by (simp add: snd_upload_and_process create_job_def)
  have r: "\<exists>r. job_to_response row = Inr r"
    by (simp add: row_def job_to_response_def make_JobResponse_def ModelSize_def)
  have i: "job_id row = replicate (Suc n) CHR ''j''"
    by (simp add: row_def)
  from Suc.IH j r i show ?case
    by auto
qed

text \<open>
  C7 fails on the code: \<open>list_jobs\<close> counts the rows of a second query with
  \<open>limit=1000\<close>, so the total it reports is the number of matching jobs only up to
  1000. With 1001 jobs stored, the first page of ten reports a total of 1000.
\<close>

theorem list_jobs_total_capped:
  "length (matching (bulk_db 1001) None) = 1001 \<and>
   map_sum id jl_total (list_jobs (bulk_db 1001) 1 10 None) = Inr 1000"
proof -
  have "length (map job_id (jobs (bulk_db 1001))) = 1001"
    using bulk_db_jobs [of 1001] by simp
  then have n: "length (matching (bulk_db 1001) None) = 1001"
    by (simp add: matching_def)
  have "\<forall>j \<in> set (get_jobs (bulk_db 1001) 10 ((1 - 1) * 10) None).
          \<exists>r. job_to_response j = Inr r"
    using bulk_db_jobs [of 1001] set_get_jobs by blast
  from job_responses_all [OF this] obtain rs where
    "job_responses (get_jobs (bulk_db 1001) 10 ((1 - 1) * 10) None) = Inr rs"
    by blast
  then obtain l where l: "list_jobs (bulk_db 1001) 1 10 None = Inr l"
    by (simp add: list_jobs_def Let_def)
  from list_jobs_total [OF l] n have "jl_total l = 1000"
    by simp
  with l n show ?thesis
    by simp
qed

subsection \<open>The status invariant\<close>














subsection \<open>A result that the store rejects\<close>

text \<open>
  When the conversion succeeds and \<open>save_job_result\<close> returns \<open>False\<close>, the failure is
  logged and nothing else is written: the job stays PROCESSING. Here the single segment
  passes the conversion (\<open>max\<close> of one item compares nothing) and violates the
  \<open>NOT NULL\<close> constraint of \<open>speaker_segments.end_time\<close>.
\<close>

lemma rejected_result_stays_processing:
  "map_sum str rd_duration (convert_result endless_segment 1) = Inr PyNone \<and>
   map status (jobs (process_audio_job pending_db example_task (Inr endless_segment) 1 2 1)) =
     [PROCESSING] \<and>
   speaker_segments (process_audio_job pending_db example_task (Inr endless_segment) 1 2 1) = []"
  by (simp add: endless_segment_def example_defs example_task_def db_defs api_defs run_defs)

end
